theory Spec2Isabelle
  imports Complex_Main
begin

section \<open>Qt value types used by the scale preview\<close>

text \<open>
  The value classes of Qt that \<^verbatim>\<open>settings_scale_preview.cpp\<close> computes with.
  C++ \<^verbatim>\<open>int\<close> is modelled by \<^typ>\<open>int\<close>: every quantity of the layout is a pixel
  count far from the 32-bit range. A \<^verbatim>\<open>QRect\<close> is given by its left, top, width and
  height, which is what the constructor \<^verbatim>\<open>QRect(x, y, w, h)\<close> takes and what the
  accessors \<^verbatim>\<open>x()\<close>, \<^verbatim>\<open>y()\<close>, \<^verbatim>\<open>width()\<close>, \<^verbatim>\<open>height()\<close> return.
\<close>

datatype QPoint = QPoint (pt_x: int) (pt_y: int)

datatype QSize = QSize (sz_width: int) (sz_height: int)

datatype QMargins = QMargins (mg_left: int) (mg_top: int) (mg_right: int) (mg_bottom: int)

datatype QRect = QRect (rect_x: int) (rect_y: int) (rect_width: int) (rect_height: int)

definition QRect_of :: "QPoint \<Rightarrow> QSize \<Rightarrow> QRect" where
  "QRect_of topLeft sz = QRect (pt_x topLeft) (pt_y topLeft) (sz_width sz) (sz_height sz)"

definition rect_topLeft :: "QRect \<Rightarrow> QPoint" where
  "rect_topLeft r = QPoint (rect_x r) (rect_y r)"

definition rect_size :: "QRect \<Rightarrow> QSize" where
  "rect_size r = QSize (rect_width r) (rect_height r)"

definition point_neg :: "QPoint \<Rightarrow> QPoint" where
  "point_neg p = QPoint (- pt_x p) (- pt_y p)"

definition margins_plus :: "QMargins \<Rightarrow> QMargins \<Rightarrow> QMargins" where
  "margins_plus a b =
     QMargins (mg_left a + mg_left b) (mg_top a + mg_top b)
       (mg_right a + mg_right b) (mg_bottom a + mg_bottom b)"

definition size_times :: "QSize \<Rightarrow> int \<Rightarrow> QSize" where
  "size_times sz k = QSize (sz_width sz * k) (sz_height sz * k)"

definition marginsAdded :: "QRect \<Rightarrow> QMargins \<Rightarrow> QRect" where
  "marginsAdded r m =
     QRect (rect_x r - mg_left m) (rect_y r - mg_top m)
       (rect_width r + mg_left m + mg_right m) (rect_height r + mg_top m + mg_bottom m)"

definition moveLeft :: "int \<Rightarrow> QRect \<Rightarrow> QRect" where
  "moveLeft pos r = QRect pos (rect_y r) (rect_width r) (rect_height r)"

definition moveTop :: "int \<Rightarrow> QRect \<Rightarrow> QRect" where
  "moveTop pos r = QRect (rect_x r) pos (rect_width r) (rect_height r)"

definition moveTopLeft :: "QPoint \<Rightarrow> QRect \<Rightarrow> QRect" where
  "moveTopLeft p r = QRect (pt_x p) (pt_y p) (rect_width r) (rect_height r)"

definition rect_isNull :: "QRect \<Rightarrow> bool" where
  "rect_isNull r = (rect_width r = 0 \<and> rect_height r = 0)"

definition rect_isEmpty :: "QRect \<Rightarrow> bool" where
  "rect_isEmpty r = (rect_width r < 1 \<or> rect_height r < 1)"

text \<open>
  \<^verbatim>\<open>QRect::intersects\<close>: false when either rectangle is null; otherwise the spans
  of the two are compared on each axis. With \<open>x2 = x + width - 1\<close> the last column of a
  rect, the span on an axis is \<open>[x, x2]\<close>, and \<open>[x2, x]\<close> when the width is negative.
\<close>

definition span_lo :: "int \<Rightarrow> int \<Rightarrow> int" where
  "span_lo a w = (if w < 0 then a + w - 1 else a)"

definition span_hi :: "int \<Rightarrow> int \<Rightarrow> int" where
  "span_hi a w = (if w < 0 then a else a + w - 1)"

definition rect_intersects :: "QRect \<Rightarrow> QRect \<Rightarrow> bool" where
  "rect_intersects a b =
     (if rect_isNull a \<or> rect_isNull b then False
      else if span_lo (rect_x a) (rect_width a) > span_hi (rect_x b) (rect_width b)
            \<or> span_lo (rect_x b) (rect_width b) > span_hi (rect_x a) (rect_width a) then False
      else if span_lo (rect_y a) (rect_height a) > span_hi (rect_y b) (rect_height b)
            \<or> span_lo (rect_y b) (rect_height b) > span_hi (rect_y a) (rect_height a) then False
      else True)"

text \<open>
  \<^verbatim>\<open>std::clamp(v, lo, hi)\<close> as the standard library implements it. Its behaviour is
  defined by the standard only for \<open>lo \<le> hi\<close>.
\<close>

definition std_clamp :: "int \<Rightarrow> int \<Rightarrow> int \<Rightarrow> int" where
  "std_clamp v lo hi = (if v < lo then lo else if hi < v then hi else v)"


section \<open>Style, fonts and text metrics\<close>

datatype font = Font (font_size: int) (font_flags: int) (font_family: int)

record TextStyle =
  ts_font :: font
  ts_linkFont :: font
  ts_linkFontOver :: font
  ts_lineHeight :: int

datatype TextOptions = NameTextOptions | ItemTextDefaultOptions

text \<open>
  \<^verbatim>\<open>Ui::Text::String\<close>: constructed with a minimal resize width and no style, then
  given a style, a text and options by \<^verbatim>\<open>setText\<close>.
\<close>

record Text_String =
  str_minResizeWidth :: int
  str_style :: "TextStyle option"
  str_text :: string
  str_options :: "TextOptions option"

definition Text_String_new :: "int \<Rightarrow> Text_String" where
  "Text_String_new minResizeWidth =
     \<lparr>str_minResizeWidth = minResizeWidth, str_style = None, str_text = [], str_options = None\<rparr>"

definition setText :: "TextStyle \<Rightarrow> string \<Rightarrow> TextOptions \<Rightarrow> Text_String \<Rightarrow> Text_String" where
  "setText st txt opts t = t\<lparr>str_style := Some st, str_text := txt, str_options := Some opts\<rparr>"

datatype icon =
    CallShadowLeft | CallShadowTop | CallShadowRight | CallShadowBottom
  | CallShadowTopLeft | CallShadowBottomLeft | CallShadowTopRight | CallShadowBottomRight
  | HistoryBubbleTailInLeft

datatype color = WindowShadowFg | MsgInBg | MsgInShadow

text \<open>
  Images are opaque to the layout; a value records how it was produced. The only
  observation the preview makes on an image is \<^verbatim>\<open>isNull()\<close>.
\<close>

datatype QImage =
    NullImage
  | UserpicSource nat
  | Allocated QSize int
  | IconInstance icon color int
  | CornerMask int nat
  | CornerPixmap int color nat
  | Circle QImage QSize int

definition image_isNull :: "QImage \<Rightarrow> bool" where
  "image_isNull img = (img = NullImage)"

datatype 'a array4 = Array4 (at0: 'a) (at1: 'a) (at2: 'a) (at3: 'a)

definition no_images :: "QImage array4" where
  "no_images = Array4 NullImage NullImage NullImage NullImage"

text \<open>
  What the file takes from outside: the style system (\<^verbatim>\<open>style::ConvertScale\<close>, the
  scale bounds, the device pixel ratio, the \<^verbatim>\<open>st::\<close> constants), Qt's font metrics
  and the text layout of \<^verbatim>\<open>Ui::Text::String\<close>, and the platform queries. None of it
  is defined in this file, so it is a parameter of every operation.
\<close>

record Style =
  ConvertScale :: "int \<Rightarrow> int \<Rightarrow> int"
  font_height :: "font \<Rightarrow> int"
  text_maxWidth :: "Text_String \<Rightarrow> int"
  text_countHeight :: "Text_String \<Rightarrow> int \<Rightarrow> int"
  kScaleMin :: int
  kScaleMax :: int
  DevicePixelRatio :: int
  IsWayland :: bool
  TranslucentWindowsSupported :: bool
  st_fwdTextStyle :: TextStyle
  st_messageTextStyle :: TextStyle
  st_callShadow_extend :: QMargins
  st_slideWrapDuration :: int

definition kMinTextWidth :: int where "kMinTextWidth = 120"
definition kMaxTextWidth :: int where "kMaxTextWidth = 320"
definition kMaxTextLines :: int where "kMaxTextLines = 3"


section \<open>The animation of the shown state\<close>

text \<open>
  Modelled from the spec: \<^verbatim>\<open>Ui::Animations::Simple\<close> (its \<^verbatim>\<open>start\<close>, \<^verbatim>\<open>stop\<close>,
  \<^verbatim>\<open>animating\<close> and \<^verbatim>\<open>value\<close>) is declared outside this file. The specification
  describes it as a time-based tween over a constant duration with one target at a
  time: a start while a transition is in progress keeps the current progress and
  replaces the target, a start with no transition in progress begins at the value
  passed as \<open>from\<close>; progress advances by ticks, each of which runs the callback given
  to \<^verbatim>\<open>start\<close>; \<^verbatim>\<open>value(final)\<close> is the current progress while animating and
  \<open>final\<close> otherwise. Progress is a \<^verbatim>\<open>double\<close> in the source and a real number here.
\<close>

record Simple =
  anim_running :: bool
  anim_from :: real
  anim_to :: real
  anim_value :: real
  anim_duration :: int
  anim_elapsed :: int

definition Simple_idle :: Simple where
  "Simple_idle = \<lparr>anim_running = False, anim_from = 0, anim_to = 0, anim_value = 0,
     anim_duration = 0, anim_elapsed = 0\<rparr>"

definition Simple_animating :: "Simple \<Rightarrow> bool" where
  "Simple_animating a = anim_running a"

definition Simple_value :: "Simple \<Rightarrow> real \<Rightarrow> real" where
  "Simple_value a final = (if Simple_animating a then anim_value a else final)"

definition Simple_start :: "real \<Rightarrow> real \<Rightarrow> int \<Rightarrow> Simple \<Rightarrow> Simple" where
  "Simple_start from to duration a =
     (let begin = (if Simple_animating a then anim_value a else from)
      in \<lparr>anim_running = True, anim_from = begin, anim_to = to, anim_value = begin,
          anim_duration = duration, anim_elapsed = 0\<rparr>)"

definition Simple_stop :: "Simple \<Rightarrow> Simple" where
  "Simple_stop a = a\<lparr>anim_running := False\<rparr>"

definition Simple_advance :: "int \<Rightarrow> Simple \<Rightarrow> Simple" where
  "Simple_advance dt a =
     (let elapsed = anim_elapsed a + dt
      in if anim_duration a \<le> elapsed
         then a\<lparr>anim_elapsed := elapsed, anim_value := anim_to a, anim_running := False\<rparr>
         else a\<lparr>anim_elapsed := elapsed,
                anim_value := anim_from a
                  + (anim_to a - anim_from a) * real_of_int elapsed / real_of_int (anim_duration a)\<rparr>)"


section \<open>The state of a Preview\<close>

text \<open>
  What the preview does to its widget and to the animation is recorded in a trace,
  oldest effect first, next to the widget state these calls change.
\<close>

datatype effect =
    WidgetUpdate QRect
  | WidgetShow
  | WidgetHide
  | WidgetSetGeometry QRect
  | UpdateOverlayed
  | AnimationStart real real
  | AnimationStop

text \<open>
  The parent widget (the slider) as the preview reads it: its position in its own
  parent, the global position of its origin (\<^verbatim>\<open>mapToGlobal(QPoint())\<close>), its width,
  and the available geometry of its screen when it has one.
\<close>

record ParentWidget =
  parent_pos :: QPoint
  parent_global :: QPoint
  parent_width :: int
  parent_screen :: "QRect option"

datatype ScalePreviewShow = Hide | Show | Update

record Preview =
  w_parent :: ParentWidget
  w_geometry :: QRect
  w_hidden :: bool
  w_trace :: "effect list"
  m_nameStyle :: TextStyle
  m_nameText :: Text_String
  m_textStyle :: TextStyle
  m_replyText :: Text_String
  m_messageText :: Text_String
  m_shadow_extend :: QMargins
  m_shadowSides :: "QImage array4"
  m_shadowCorners :: "QImage array4"
  m_bubbleCorners :: "QImage array4"
  m_bubbleShadowBottomRight :: QImage
  m_bubbleShadow :: int
  m_localShiftLeft :: int
  m_bubbleTail :: QImage
  m_replyBar :: QRect
  m_name :: QRect
  m_reply :: QRect
  m_message :: QRect
  m_content :: QRect
  m_bubble :: QRect
  m_userpic :: QRect
  m_inner :: QRect
  m_outer :: QRect
  m_minOuterSize :: QSize
  m_maxOuterSize :: QSize
  m_layer :: QImage
  m_canvas :: QImage
  m_cursor :: QPoint
  m_canvasCornerMasks :: "QImage array4"
  m_userpicOriginal :: QImage
  m_userpicImage :: QImage
  m_scale :: int
  m_ratio :: int
  m_window :: bool
  m_shownAnimation :: Simple
  m_shown :: bool
  m_filter :: bool

definition emit :: "effect \<Rightarrow> Preview \<Rightarrow> Preview" where
  "emit e s = s\<lparr>w_trace := w_trace s @ [e]\<rparr>"

definition widget_show :: "Preview \<Rightarrow> Preview" where
  "widget_show s = emit WidgetShow (s\<lparr>w_hidden := False\<rparr>)"

definition widget_hide :: "Preview \<Rightarrow> Preview" where
  "widget_hide s = emit WidgetHide (s\<lparr>w_hidden := True\<rparr>)"

definition widget_setGeometry :: "QRect \<Rightarrow> Preview \<Rightarrow> Preview" where
  "widget_setGeometry r s = emit (WidgetSetGeometry r) (s\<lparr>w_geometry := r\<rparr>)"

definition update :: "Preview \<Rightarrow> Preview" where
  "update s = emit (WidgetUpdate (m_outer s)) s"

definition image_alloc :: "QSize \<Rightarrow> int \<Rightarrow> QImage" where
  "image_alloc sz ratio =
     (if sz_width sz < 1 \<or> sz_height sz < 1 then NullImage else Allocated sz ratio)"

definition CornersMask :: "int \<Rightarrow> QImage array4" where
  "CornersMask radius =
     Array4 (CornerMask radius 0) (CornerMask radius 1) (CornerMask radius 2) (CornerMask radius 3)"

definition PrepareCornerPixmaps :: "int \<Rightarrow> color \<Rightarrow> QImage array4" where
  "PrepareCornerPixmaps radius c =
     Array4 (CornerPixmap radius c 0) (CornerPixmap radius c 1)
       (CornerPixmap radius c 2) (CornerPixmap radius c 3)"


section \<open>Scaling\<close>

definition scaled :: "Style \<Rightarrow> Preview \<Rightarrow> int \<Rightarrow> int" where
  "scaled st s v = ConvertScale st v (m_scale s)"

definition scaled_margins :: "Style \<Rightarrow> Preview \<Rightarrow> QMargins \<Rightarrow> QMargins" where
  "scaled_margins st s m =
     QMargins (scaled st s (mg_left m)) (scaled st s (mg_top m))
       (scaled st s (mg_right m)) (scaled st s (mg_bottom m))"

definition scaled_font :: "Style \<Rightarrow> Preview \<Rightarrow> font \<Rightarrow> int \<Rightarrow> font" where
  "scaled_font st s f sz = Font (scaled st s sz) (font_flags f) (font_family f)"

definition scaled_TextStyle :: "Style \<Rightarrow> Preview \<Rightarrow> TextStyle \<Rightarrow> int \<Rightarrow> int \<Rightarrow> TextStyle" where
  "scaled_TextStyle st s v fontSize lineHeight =
     \<lparr>ts_font = scaled_font st s (ts_font v) fontSize,
      ts_linkFont = scaled_font st s (ts_linkFont v) fontSize,
      ts_linkFontOver = scaled_font st s (ts_linkFontOver v) fontSize,
      ts_lineHeight = scaled st s (ts_lineHeight v)\<rparr>"

definition scaled_icon :: "Preview \<Rightarrow> icon \<Rightarrow> color \<Rightarrow> QImage" where
  "scaled_icon s ic c = IconInstance ic c (m_scale s)"


section \<open>The layout: updateToScale\<close>

text \<open>
  \<^verbatim>\<open>Preview::updateToScale\<close>, statement by statement. The body of the source is cut
  into six consecutive blocks, one definition each, run in the order of the source;
  the local constants keep their names and each assignment to a member is one record
  update. The two assignments under \<^verbatim>\<open>if (hasUserpic)\<close> are written as two updates
  whose value is the old one when there is no userpic.
\<close>

text \<open>Lines 328 to 342: the scale, the two text styles, the three example texts.\<close>

definition updateToScale_texts :: "Style \<Rightarrow> int \<Rightarrow> Preview \<Rightarrow> Preview" where
  "updateToScale_texts st scale s0 =
     (let s = s0\<lparr>m_scale := scale\<rparr>;
          s = s\<lparr>m_nameStyle := scaled_TextStyle st s (m_nameStyle s) 13 0\<rparr>;
          s = s\<lparr>m_textStyle := scaled_TextStyle st s (m_textStyle s) 13 0\<rparr>;
          s = s\<lparr>m_nameText :=
                setText (m_nameStyle s) ''Bob Harris'' NameTextOptions (m_nameText s)\<rparr>;
          s = s\<lparr>m_replyText :=
                setText (m_textStyle s) ''Good morning!'' ItemTextDefaultOptions (m_replyText s)\<rparr>;
          s = s\<lparr>m_messageText :=
                setText (m_textStyle s) ''Do you know what time it is?'' ItemTextDefaultOptions
                  (m_messageText s)\<rparr>
      in s)"

text \<open>Lines 344 to 384: the reply bar, the name, reply and message rects, the content.\<close>

definition updateToScale_content :: "Style \<Rightarrow> Preview \<Rightarrow> Preview" where
  "updateToScale_content st s0 =
     (let s = s0\<lparr>m_replyBar :=
                QRect (scaled st s0 1) (scaled st s0 6 + 0) (scaled st s0 2) (scaled st s0 36)\<rparr>;
          namePosition = QPoint (scaled st s 10) (scaled st s 6);
          replyPosition =
            QPoint (scaled st s 10) (scaled st s 6 + font_height st (ts_font (m_nameStyle s)));
          wantedWidth =
            max (pt_x namePosition + text_maxWidth st (m_nameText s))
              (max (pt_x replyPosition + text_maxWidth st (m_replyText s))
                 (text_maxWidth st (m_messageText s)));
          minTextWidth = scaled st s kMinTextWidth;
          maxTextWidth = scaled st s kMaxTextWidth;
          messageWidth = std_clamp wantedWidth minTextWidth maxTextWidth;
          messageHeight =
            min (text_countHeight st (m_messageText s) maxTextWidth)
              (kMaxTextLines * font_height st (ts_font (m_textStyle s)));
          s = s\<lparr>m_name :=
                QRect_of namePosition
                  (QSize (messageWidth - pt_x namePosition)
                     (font_height st (ts_font (m_nameStyle s))))\<rparr>;
          s = s\<lparr>m_reply :=
                QRect_of replyPosition
                  (QSize (messageWidth - pt_x replyPosition)
                     (font_height st (ts_font (m_textStyle s))))\<rparr>;
          s = s\<lparr>m_message := QRect 0 0 messageWidth messageHeight\<rparr>;
          replySkip = rect_y (m_replyBar s) + rect_height (m_replyBar s) + scaled st s 6;
          s = s\<lparr>m_message := moveTop replySkip (m_message s)\<rparr>;
          s = s\<lparr>m_content := QRect 0 0 messageWidth (replySkip + messageHeight)\<rparr>
      in s)"

text \<open>Lines 386 to 393: the bubble around the content, and the bubble caches cleared.\<close>

definition updateToScale_bubble :: "Style \<Rightarrow> Preview \<Rightarrow> Preview" where
  "updateToScale_bubble st s0 =
     (let msgPadding = scaled_margins st s0 (QMargins 13 7 13 8);
          s = s0\<lparr>m_bubble := marginsAdded (m_content s0) msgPadding\<rparr>;
          s = s\<lparr>m_content := moveTopLeft (point_neg (rect_topLeft (m_bubble s))) (m_content s)\<rparr>;
          s = s\<lparr>m_bubble := moveTopLeft (QPoint 0 0) (m_bubble s)\<rparr>;
          s = s\<lparr>m_bubbleShadow := scaled st s 2\<rparr>;
          s = s\<lparr>m_bubbleCorners := no_images\<rparr>;
          s = s\<lparr>m_bubbleTail := NullImage\<rparr>;
          s = s\<lparr>m_bubbleShadowBottomRight := NullImage\<rparr>
      in s)"

text \<open>Lines 395 to 410: the inner rect around the bubble, and the userpic.\<close>

definition updateToScale_inner :: "Style \<Rightarrow> Preview \<Rightarrow> Preview" where
  "updateToScale_inner st s0 =
     (let hasUserpic = (\<not> image_isNull (m_userpicOriginal s0));
          bubbleMargin = scaled_margins st s0 (QMargins 20 16 20 16);
          userpicSkip = (if hasUserpic then scaled st s0 40 else 0);
          s = s0\<lparr>m_inner :=
                marginsAdded (m_bubble s0) (margins_plus bubbleMargin (QMargins userpicSkip 0 0 0))\<rparr>;
          s = s\<lparr>m_bubble := moveTopLeft (point_neg (rect_topLeft (m_inner s))) (m_bubble s)\<rparr>;
          s = s\<lparr>m_inner := moveTopLeft (QPoint 0 0) (m_inner s)\<rparr>;
          userpicSize = scaled st s 33;
          s = s\<lparr>m_userpic :=
                (if hasUserpic
                 then QRect (mg_left bubbleMargin)
                        (rect_y (m_bubble s) + rect_height (m_bubble s) - userpicSize)
                        userpicSize userpicSize
                 else m_userpic s)\<rparr>;
          s = s\<lparr>m_userpicImage := (if hasUserpic then NullImage else m_userpicImage s)\<rparr>
      in s)"

text \<open>Lines 412 to 419: the shadow, the redraw request, the outer rect.\<close>

definition updateToScale_outer :: "Style \<Rightarrow> Preview \<Rightarrow> Preview" where
  "updateToScale_outer st s0 =
     (let s = s0\<lparr>m_shadow_extend := scaled_margins st s0 (QMargins 9 8 9 10)\<rparr>;
          s = s\<lparr>m_shadowSides := no_images\<rparr>;
          s = s\<lparr>m_shadowCorners := no_images\<rparr>;
          s = update s;
          s = s\<lparr>m_outer := marginsAdded (m_inner s) (m_shadow_extend s)\<rparr>;
          s = s\<lparr>m_inner := moveTopLeft (point_neg (rect_topLeft (m_outer s))) (m_inner s)\<rparr>;
          s = s\<lparr>m_outer := moveTopLeft (QPoint 0 0) (m_outer s)\<rparr>
      in s)"

text \<open>Lines 421 to 431: the two offscreen buffers and the corner masks.\<close>

definition updateToScale_buffers :: "Style \<Rightarrow> Preview \<Rightarrow> Preview" where
  "updateToScale_buffers st s0 =
     (let s = s0\<lparr>m_layer :=
                image_alloc (size_times (rect_size (m_outer s0)) (m_ratio s0)) (m_ratio s0)\<rparr>;
          s = s\<lparr>m_canvas := image_alloc (size_times (rect_size (m_inner s)) (m_ratio s)) (m_ratio s)\<rparr>;
          s = s\<lparr>m_canvasCornerMasks := CornersMask (scaled st s 6)\<rparr>
      in s)"

definition updateToScale :: "Style \<Rightarrow> int \<Rightarrow> Preview \<Rightarrow> Preview" where
  "updateToScale st scale s =
     (if m_scale s = scale then s
      else updateToScale_buffers st
             (updateToScale_outer st
                (updateToScale_inner st
                   (updateToScale_bubble st
                      (updateToScale_content st
                         (updateToScale_texts st scale s))))))"


section \<open>Positioning\<close>

text \<open>Division of C++ \<^verbatim>\<open>int\<close>s truncates toward zero.\<close>

definition c_div :: "int \<Rightarrow> int \<Rightarrow> int" where
  "c_div a b = sgn a * sgn b * (\<bar>a\<bar> div \<bar>b\<bar>)"

definition adjustByScreenGeometry :: "QRect \<Rightarrow> Preview \<Rightarrow> QRect" where
  "adjustByScreenGeometry geometry s =
     (case parent_screen (w_parent s) of
        None \<Rightarrow> geometry
      | Some screenGeometry \<Rightarrow>
          if \<not> rect_intersects screenGeometry geometry
             \<or> rect_width screenGeometry < sz_width (m_maxOuterSize s)
             \<or> rect_height screenGeometry < sz_height (m_maxOuterSize s)
          then geometry
          else
            let edgeLeft = rect_x screenGeometry;
                edgeRight = rect_x screenGeometry + rect_width screenGeometry;
                edgedRight = min edgeRight (rect_x geometry + rect_width geometry);
                left = max (min (rect_x geometry) (edgedRight - sz_width (m_maxOuterSize s))) edgeLeft;
                right = max edgedRight (left + sz_width (m_maxOuterSize s))
            in QRect left (rect_y geometry) (right - left) (rect_height geometry))"

definition updateOuterPosition :: "int \<Rightarrow> Preview \<Rightarrow> Preview" where
  "updateOuterPosition globalX s0 =
     (if m_window s0
      then
        let s = update s0;
            global = w_geometry s;
            desiredLeft = globalX - c_div (rect_width (m_outer s)) 2 - rect_x global;
            s = s\<lparr>m_outer :=
                  moveLeft (max (min desiredLeft (rect_width global - rect_width (m_outer s))) 0)
                    (m_outer s)\<rparr>;
            s = s\<lparr>m_outer :=
                  moveTop (sz_height (m_maxOuterSize s) - rect_height (m_outer s)) (m_outer s)\<rparr>
        in update s
      else s0)"

definition updateWindowGlobalPosition :: "QPoint \<Rightarrow> int \<Rightarrow> Preview \<Rightarrow> Preview" where
  "updateWindowGlobalPosition global globalX s0 =
     (let desiredLeft = pt_x global - c_div (sz_width (m_minOuterSize s0)) 2;
          desiredRight =
            pt_x global + parent_width (w_parent s0) + c_div (sz_width (m_maxOuterSize s0)) 2;
          requiredLeft = desiredRight - sz_width (m_maxOuterSize s0);
          left = min desiredLeft requiredLeft;
          requiredRight = left + sz_width (m_maxOuterSize s0);
          right = max desiredRight requiredRight;
          top = pt_y global - sz_height (m_maxOuterSize s0);
          result = QRect left top (right - left) (sz_height (m_maxOuterSize s0));
          s = widget_setGeometry (adjustByScreenGeometry result s0) s0
      in updateOuterPosition globalX s)"

text \<open>
  \<^verbatim>\<open>Preview::updateGlobalPosition(int globalX)\<close>. In the branch for the embedded mode
  the source reads
  \<^verbatim>\<open>const auto position = parent->pos();\<close>
  and the two lines after it, \<^verbatim>\<open>+ QPoint(parent->width() / 2, 0) - QPoint(_outer.width() / 2, _outer.height());\<close>,
  form an expression statement of their own: its value, bound to \<open>discarded\<close> below,
  goes nowhere.
\<close>

definition updateGlobalPosition :: "int \<Rightarrow> Preview \<Rightarrow> Preview" where
  "updateGlobalPosition globalX s0 =
     (let parent = w_parent s0
      in if m_window s0
         then
           let global = parent_global parent;
               s = s0\<lparr>m_localShiftLeft := globalX - pt_x global\<rparr>
           in updateWindowGlobalPosition global globalX s
         else
           let position = parent_pos parent;
               discarded =
                 QPoint (c_div (parent_width parent) 2 - c_div (rect_width (m_outer s0)) 2)
                   (0 - rect_height (m_outer s0));
               s = widget_setGeometry (QRect_of position (rect_size (m_outer s0))) s0
           in updateOuterPosition globalX s)"

text \<open>\<^verbatim>\<open>Preview::updateGlobalPosition()\<close>, the overload the event filter calls.\<close>

definition updateGlobalPosition_filter :: "Preview \<Rightarrow> Preview" where
  "updateGlobalPosition_filter s =
     (let parent = w_parent s;
          global = parent_global parent
      in updateWindowGlobalPosition global (pt_x global + m_localShiftLeft s) s)"


section \<open>Showing and hiding\<close>

text \<open>
  \<^verbatim>\<open>Preview::toggleFilter\<close>: the filter object exists exactly while the preview is
  shown; what the installed filter does on an event is \<open>updateGlobalPosition_filter\<close>
  and \<open>checkDeactivation\<close> below.
\<close>

definition toggleFilter :: "Preview \<Rightarrow> Preview" where
  "toggleFilter s =
     (if \<not> m_shown s then s\<lparr>m_filter := False\<rparr>
      else if m_filter s then s
      else s\<lparr>m_filter := True\<rparr>)"

definition animation_start :: "real \<Rightarrow> real \<Rightarrow> int \<Rightarrow> Preview \<Rightarrow> Preview" where
  "animation_start from to duration s =
     emit (AnimationStart from to)
       (s\<lparr>m_shownAnimation := Simple_start from to duration (m_shownAnimation s)\<rparr>)"

definition animation_stop :: "Preview \<Rightarrow> Preview" where
  "animation_stop s = emit AnimationStop (s\<lparr>m_shownAnimation := Simple_stop (m_shownAnimation s)\<rparr>)"

text \<open>The callback that \<^verbatim>\<open>toggleShown\<close> hands to the animation.\<close>

definition shown_callback :: "Preview \<Rightarrow> Preview" where
  "shown_callback s0 =
     (let s = update s0
      in if \<not> m_shown s \<and> \<not> Simple_animating (m_shownAnimation s) then widget_hide s else s)"

definition toggleShown :: "Style \<Rightarrow> bool \<Rightarrow> Preview \<Rightarrow> Preview" where
  "toggleShown st shown s0 =
     (if m_shown s0 = shown then s0
      else
        let s = s0\<lparr>m_shown := shown\<rparr>;
            s = toggleFilter s
        in if m_shown s
           then animation_start (if shown then 0 else 1) (if shown then 1 else 0)
                  (st_slideWrapDuration st) (widget_show s)
           else if w_hidden s then animation_stop s
           else animation_start (if shown then 0 else 1) (if shown then 1 else 0)
                  (st_slideWrapDuration st) s)"

text \<open>
  Modelled from the spec: one tick of the animation subsystem, which is outside this
  file. It advances the progress by the time passed and then runs the callback.
\<close>

definition animation_tick :: "int \<Rightarrow> Preview \<Rightarrow> Preview" where
  "animation_tick dt s =
     (if Simple_animating (m_shownAnimation s)
      then shown_callback (s\<lparr>m_shownAnimation := Simple_advance dt (m_shownAnimation s)\<rparr>)
      else s)"

definition toggle :: "Style \<Rightarrow> ScalePreviewShow \<Rightarrow> int \<Rightarrow> int \<Rightarrow> Preview \<Rightarrow> Preview" where
  "toggle st show scale globalX s0 =
     (if show = Hide then toggleShown st False s0
      else if show = Update \<and> \<not> m_shown s0 then s0
      else
        let s = updateToScale st scale s0;
            s = updateGlobalPosition globalX s;
            s = (if w_hidden s then emit UpdateOverlayed s else s)
        in toggleShown st True s)"

datatype ApplicationState = ApplicationActive | ApplicationInactive | ApplicationHidden
  | ApplicationSuspended

definition checkDeactivation :: "Style \<Rightarrow> ApplicationState \<Rightarrow> Preview \<Rightarrow> Preview" where
  "checkDeactivation st state s = (if state \<noteq> ApplicationActive then toggle st Hide 0 0 s else s)"


section \<open>Cached images\<close>

text \<open>The handler of the userpic producer, from the constructor.\<close>

definition on_userpic :: "QImage \<Rightarrow> Preview \<Rightarrow> Preview" where
  "on_userpic userpic s0 =
     (let s = s0\<lparr>m_userpicOriginal := userpic\<rparr>
      in if \<not> image_isNull (m_userpicImage s)
         then update (s\<lparr>m_userpicImage := NullImage\<rparr>)
         else s)"

text \<open>The handler of \<^verbatim>\<open>style::PaletteChanged()\<close>, from \<^verbatim>\<open>init\<close>.\<close>

definition on_paletteChanged :: "Preview \<Rightarrow> Preview" where
  "on_paletteChanged s0 =
     (let s = s0\<lparr>m_bubbleCorners := no_images\<rparr>;
          s = s\<lparr>m_bubbleTail := NullImage\<rparr>;
          s = s\<lparr>m_bubbleShadowBottomRight := NullImage\<rparr>
      in update s)"

definition validateUserpicCache :: "Preview \<Rightarrow> Preview" where
  "validateUserpicCache s =
     (if \<not> image_isNull (m_userpicImage s)
         \<or> image_isNull (m_userpicOriginal s)
         \<or> rect_isEmpty (m_userpic s)
      then s
      else s\<lparr>m_userpicImage :=
               Circle (m_userpicOriginal s) (size_times (rect_size (m_userpic s)) (m_ratio s))
                 (m_ratio s)\<rparr>)"

definition validateBubbleCache :: "Style \<Rightarrow> Preview \<Rightarrow> Preview" where
  "validateBubbleCache st s0 =
     (if \<not> image_isNull (at0 (m_bubbleCorners s0)) then s0
      else
        let radius = scaled st s0 16;
            s = s0\<lparr>m_bubbleCorners := PrepareCornerPixmaps radius MsgInBg\<rparr>;
            s = s\<lparr>m_bubbleCorners :=
                  Array4 (at0 (m_bubbleCorners s)) (at1 (m_bubbleCorners s)) NullImage
                    (at3 (m_bubbleCorners s))\<rparr>;
            s = s\<lparr>m_bubbleTail := scaled_icon s HistoryBubbleTailInLeft MsgInBg\<rparr>;
            s = s\<lparr>m_bubbleShadowBottomRight := at3 (PrepareCornerPixmaps radius MsgInShadow)\<rparr>
        in s)"

definition validateShadowCache :: "Preview \<Rightarrow> Preview" where
  "validateShadowCache s =
     (if \<not> image_isNull (at0 (m_shadowSides s)) then s
      else
        s\<lparr>m_shadowSides :=
            Array4 (scaled_icon s CallShadowLeft WindowShadowFg)
              (scaled_icon s CallShadowTop WindowShadowFg)
              (scaled_icon s CallShadowRight WindowShadowFg)
              (scaled_icon s CallShadowBottom WindowShadowFg),
          m_shadowCorners :=
            Array4 (scaled_icon s CallShadowTopLeft WindowShadowFg)
              (scaled_icon s CallShadowBottomLeft WindowShadowFg)
              (scaled_icon s CallShadowTopRight WindowShadowFg)
              (scaled_icon s CallShadowBottomRight WindowShadowFg)\<rparr>)"


section \<open>Painting the message\<close>

datatype pen = HistoryTextInFg | MsgInServiceFg

datatype paint_op =
    SetPen pen
  | DrawLeftElided Text_String int int int int int

text \<open>
  \<^verbatim>\<open>Preview::paintMessage\<close>: the calls it makes on the painter and on the message text,
  the last argument of \<^verbatim>\<open>drawLeftElided\<close> being the number of lines.
\<close>

definition paintMessage :: "Preview \<Rightarrow> QRect \<Rightarrow> paint_op list" where
  "paintMessage s clip =
     [SetPen HistoryTextInFg,
      DrawLeftElided (m_messageText s) 0 0 (rect_width (m_message s)) (rect_width (m_message s))
        kMaxTextLines]"


section \<open>Construction\<close>

definition UseSeparateWindow :: "Style \<Rightarrow> bool" where
  "UseSeparateWindow st = (\<not> IsWayland st \<and> TranslucentWindowsSupported st)"

text \<open>
  The members as the class declaration and the constructor's initialiser list set
  them. The widget comes from Qt: its first geometry and whether it is hidden are
  given from outside. A default \<^verbatim>\<open>QRect\<close> has width and height 0, a default
  \<^verbatim>\<open>QSize\<close> has width and height -1.
\<close>

definition Preview_members :: "Style \<Rightarrow> ParentWidget \<Rightarrow> QRect \<Rightarrow> bool \<Rightarrow> Preview" where
  "Preview_members st parent geometry hidden =
     \<lparr>w_parent = parent,
      w_geometry = geometry,
      w_hidden = hidden,
      w_trace = [],
      m_nameStyle = st_fwdTextStyle st,
      m_nameText = Text_String_new (c_div kMaxTextWidth 3),
      m_textStyle = st_messageTextStyle st,
      m_replyText = Text_String_new (c_div kMaxTextWidth 3),
      m_messageText = Text_String_new (c_div kMaxTextWidth 3),
      m_shadow_extend = st_callShadow_extend st,
      m_shadowSides = no_images,
      m_shadowCorners = no_images,
      m_bubbleCorners = no_images,
      m_bubbleShadowBottomRight = NullImage,
      m_bubbleShadow = 0,
      m_localShiftLeft = 0,
      m_bubbleTail = NullImage,
      m_replyBar = QRect 0 0 0 0,
      m_name = QRect 0 0 0 0,
      m_reply = QRect 0 0 0 0,
      m_message = QRect 0 0 0 0,
      m_content = QRect 0 0 0 0,
      m_bubble = QRect 0 0 0 0,
      m_userpic = QRect 0 0 0 0,
      m_inner = QRect 0 0 0 0,
      m_outer = QRect 0 0 0 0,
      m_minOuterSize = QSize (- 1) (- 1),
      m_maxOuterSize = QSize (- 1) (- 1),
      m_layer = NullImage,
      m_canvas = NullImage,
      m_cursor = QPoint 0 0,
      m_canvasCornerMasks = no_images,
      m_userpicOriginal = NullImage,
      m_userpicImage = NullImage,
      m_scale = 0,
      m_ratio = DevicePixelRatio st,
      m_window = UseSeparateWindow st,
      m_shownAnimation = Simple_idle,
      m_shown = False,
      m_filter = False\<rparr>"

definition initAsWindow :: "Preview \<Rightarrow> Preview" where
  "initAsWindow s = widget_hide s"

text \<open>
  \<^verbatim>\<open>Preview::init\<close>. Copying the background into the theme and the two subscriptions
  (paint requests, palette changes) change no member that the layout reads; the
  handlers are \<open>on_paletteChanged\<close> and the paint functions.
\<close>

definition init :: "Style \<Rightarrow> Preview \<Rightarrow> Preview" where
  "init st s0 =
     (if m_window s0
      then
        let s = initAsWindow s0;
            s = updateToScale st (kScaleMin st) s;
            s = s\<lparr>m_minOuterSize := rect_size (m_outer s)\<rparr>;
            s = updateToScale st (c_div (kScaleMax st) (m_ratio s)) s;
            s = s\<lparr>m_maxOuterSize := rect_size (m_outer s)\<rparr>
        in s
      else s0)"

text \<open>
  The constructor: the images that the producer delivers while it is being subscribed
  to go through the handler first, then \<^verbatim>\<open>init\<close> runs.
\<close>

definition Preview_new ::
  "Style \<Rightarrow> ParentWidget \<Rightarrow> QRect \<Rightarrow> bool \<Rightarrow> QImage list \<Rightarrow> Preview" where
  "Preview_new st parent geometry hidden userpic =
     init st (fold on_userpic userpic (Preview_members st parent geometry hidden))"


section \<open>SetupScalePreview\<close>

record UserData =
  user_userpic :: "QImage list"

record SessionController =
  session_user :: UserData

record Window_Controller =
  sessionController :: "SessionController option"

datatype failure = NullPointerDereference

definition PeerUserpicImageValue :: "UserData \<Rightarrow> int \<Rightarrow> int \<Rightarrow> QImage list" where
  "PeerUserpicImageValue user photoSize radius = user_userpic user"

text \<open>
  \<^verbatim>\<open>SetupScalePreview\<close>. The user is null exactly when there is no session controller.
  The statement \<^verbatim>\<open>auto view = user->activeUserpicView();\<close> goes through the pointer
  before the test \<^verbatim>\<open>user ? ... : nullptr\<close> of the next statement. The function the
  source returns calls \<^verbatim>\<open>toggle\<close> on the preview made here, so the model returns
  that preview.
\<close>

definition SetupScalePreview ::
  "Style \<Rightarrow> Window_Controller \<Rightarrow> ParentWidget \<Rightarrow> QRect \<Rightarrow> bool \<Rightarrow> failure + Preview" where
  "SetupScalePreview st window slider geometry hidden =
     (let controller = sessionController window;
          user = (case controller of Some c \<Rightarrow> Some (session_user c) | None \<Rightarrow> None)
      in case user of
           None \<Rightarrow> Inl NullPointerDereference
         | Some u \<Rightarrow>
             Inr (Preview_new st slider geometry hidden (PeerUserpicImageValue u 160 0)))"


section \<open>An instance of the outside parameters\<close>

text \<open>
  A style to run the model on concrete inputs: scaling takes \<open>value * scale / 100\<close> to
  the nearest integer and never takes a non-zero value to zero; a font is a third
  taller than its size; a character is half as wide as the font size, rounded up;
  a text wraps into lines of the font's height.
\<close>

definition example_round :: "int \<Rightarrow> int \<Rightarrow> int" where
  "example_round v scale =
     (let r = (v * scale + 49) div 100 in if v \<noteq> 0 \<and> r = 0 then 1 else r)"

definition example_ConvertScale :: "int \<Rightarrow> int \<Rightarrow> int" where
  "example_ConvertScale v scale =
     (if v < 0 then - example_round (- v) scale else example_round v scale)"

definition example_font_height :: "font \<Rightarrow> int" where
  "example_font_height f = font_size f + font_size f div 3 + 1"

definition example_maxWidth :: "Text_String \<Rightarrow> int" where
  "example_maxWidth t =
     (case str_style t of
        None \<Rightarrow> 0
      | Some ts \<Rightarrow> int (length (str_text t)) * ((font_size (ts_font ts) + 1) div 2))"

definition example_countHeight :: "Text_String \<Rightarrow> int \<Rightarrow> int" where
  "example_countHeight t w =
     (case str_style t of
        None \<Rightarrow> 0
      | Some ts \<Rightarrow>
          (if w < 1 then 1 else max 1 ((example_maxWidth t + w - 1) div w))
            * example_font_height (ts_font ts))"

definition example_TextStyle :: TextStyle where
  "example_TextStyle =
     \<lparr>ts_font = Font 13 0 0, ts_linkFont = Font 13 0 0, ts_linkFontOver = Font 13 1 0,
      ts_lineHeight = 0\<rparr>"

definition example_style :: Style where
  "example_style =
     \<lparr>ConvertScale = example_ConvertScale,
      font_height = example_font_height,
      text_maxWidth = example_maxWidth,
      text_countHeight = example_countHeight,
      kScaleMin = 50,
      kScaleMax = 300,
      DevicePixelRatio = 1,
      IsWayland = True,
      TranslucentWindowsSupported = True,
      st_fwdTextStyle = example_TextStyle,
      st_messageTextStyle = example_TextStyle,
      st_callShadow_extend = QMargins 9 8 9 10,
      st_slideWrapDuration = 100\<rparr>"

definition example_slider :: ParentWidget where
  "example_slider =
     \<lparr>parent_pos = QPoint 100 200, parent_global = QPoint 400 600, parent_width = 300,
      parent_screen = Some (QRect 0 0 1920 1080)\<rparr>"

text \<open>A preview in the embedded mode, built by the constructor and not yet shown.\<close>

definition example_preview :: Preview where
  "example_preview = Preview_new example_style example_slider (QRect 0 0 100 30) True []"

text \<open>The same, for a user whose userpic is delivered when the preview subscribes.\<close>

definition example_preview_userpic :: Preview where
  "example_preview_userpic =
     Preview_new example_style example_slider (QRect 0 0 100 30) True [UserpicSource 1]"





text \<open>
  That preview after a first layout at scale 100 and a first paint, which fills the
  userpic and shadow caches.
\<close>

definition example_painted :: Preview where
  "example_painted =
     validateShadowCache
       (validateUserpicCache (updateToScale example_style 100 example_preview_userpic))"

text \<open>
  The preview without userpic a quarter of the way through its show animation: shown
  at scale 100, then one tick of 25 ms.
\<close>

definition example_showing :: Preview where
  "example_showing = animation_tick 25 (toggle example_style Show 100 500 example_preview)"


section \<open>Quantities of the layout, for stating its properties\<close>

text \<open>
  The message width and height that \<open>updateToScale_content\<close> computes, as functions of
  the state it starts from.
\<close>

definition layout_messageWidth :: "Style \<Rightarrow> Preview \<Rightarrow> int" where
  "layout_messageWidth st s =
     std_clamp
       (max (scaled st s 10 + text_maxWidth st (m_nameText s))
          (max (scaled st s 10 + text_maxWidth st (m_replyText s))
             (text_maxWidth st (m_messageText s))))
       (scaled st s 120) (scaled st s 320)"

definition layout_messageHeight :: "Style \<Rightarrow> Preview \<Rightarrow> int" where
  "layout_messageHeight st s =
     min (text_countHeight st (m_messageText s) (scaled st s 320))
       (3 * font_height st (ts_font (m_textStyle s)))"




section \<open>What each block of updateToScale does to the members\<close>

lemmas rect_defs = QRect_of_def rect_topLeft_def rect_size_def point_neg_def margins_plus_def
  size_times_def marginsAdded_def moveLeft_def moveTop_def moveTopLeft_def scaled_margins_def

lemma texts_fields:
  "m_scale (updateToScale_texts st sc s) = sc"
  "ts_font (m_nameStyle (updateToScale_texts st sc s)) =
     Font (ConvertScale st 13 sc) (font_flags (ts_font (m_nameStyle s)))
       (font_family (ts_font (m_nameStyle s)))"
  "ts_font (m_textStyle (updateToScale_texts st sc s)) =
     Font (ConvertScale st 13 sc) (font_flags (ts_font (m_textStyle s)))
       (font_family (ts_font (m_textStyle s)))"
  "str_text (m_nameText (updateToScale_texts st sc s)) = ''Bob Harris''"
  "str_text (m_replyText (updateToScale_texts st sc s)) = ''Good morning!''"
  "str_text (m_messageText (updateToScale_texts st sc s)) = ''Do you know what time it is?''"
  "str_style (m_nameText (updateToScale_texts st sc s)) =
     Some (m_nameStyle (updateToScale_texts st sc s))"
  "str_style (m_replyText (updateToScale_texts st sc s)) =
     Some (m_textStyle (updateToScale_texts st sc s))"
  "str_style (m_messageText (updateToScale_texts st sc s)) =
     Some (m_textStyle (updateToScale_texts st sc s))"
  by (simp_all add: updateToScale_texts_def Let_def scaled_TextStyle_def scaled_font_def
      scaled_def setText_def)

lemma texts_frame:
  "m_userpicOriginal (updateToScale_texts st sc s) = m_userpicOriginal s"
  "m_userpicImage (updateToScale_texts st sc s) = m_userpicImage s"
  "m_userpic (updateToScale_texts st sc s) = m_userpic s"
  "m_ratio (updateToScale_texts st sc s) = m_ratio s"
  "m_window (updateToScale_texts st sc s) = m_window s"
  "m_shown (updateToScale_texts st sc s) = m_shown s"
  "m_filter (updateToScale_texts st sc s) = m_filter s"
  "m_shownAnimation (updateToScale_texts st sc s) = m_shownAnimation s"
  "m_outer (updateToScale_texts st sc s) = m_outer s"
  "m_minOuterSize (updateToScale_texts st sc s) = m_minOuterSize s"
  "m_maxOuterSize (updateToScale_texts st sc s) = m_maxOuterSize s"
  "w_hidden (updateToScale_texts st sc s) = w_hidden s"
  "w_parent (updateToScale_texts st sc s) = w_parent s"
  "w_geometry (updateToScale_texts st sc s) = w_geometry s"
  "w_trace (updateToScale_texts st sc s) = w_trace s"
  by (simp_all add: updateToScale_texts_def Let_def)


lemma content_fields:
  "m_replyBar (updateToScale_content st s) =
     QRect (scaled st s 1) (scaled st s 6) (scaled st s 2) (scaled st s 36)"
  "m_name (updateToScale_content st s) =
     QRect (scaled st s 10) (scaled st s 6) (layout_messageWidth st s - scaled st s 10)
       (font_height st (ts_font (m_nameStyle s)))"
  "m_reply (updateToScale_content st s) =
     QRect (scaled st s 10) (scaled st s 6 + font_height st (ts_font (m_nameStyle s)))
       (layout_messageWidth st s - scaled st s 10) (font_height st (ts_font (m_textStyle s)))"
  "m_message (updateToScale_content st s) =
     QRect 0 (scaled st s 6 + scaled st s 36 + scaled st s 6)
       (layout_messageWidth st s) (layout_messageHeight st s)"
  "m_content (updateToScale_content st s) =
     QRect 0 0 (layout_messageWidth st s)
       (scaled st s 6 + scaled st s 36 + scaled st s 6 + layout_messageHeight st s)"
  by (simp_all add: updateToScale_content_def Let_def QRect_of_def moveTop_def
      kMinTextWidth_def kMaxTextWidth_def kMaxTextLines_def scaled_def
      layout_messageWidth_def layout_messageHeight_def)

lemma content_frame:
  "m_scale (updateToScale_content st s) = m_scale s"
  "m_nameStyle (updateToScale_content st s) = m_nameStyle s"
  "m_textStyle (updateToScale_content st s) = m_textStyle s"
  "m_nameText (updateToScale_content st s) = m_nameText s"
  "m_replyText (updateToScale_content st s) = m_replyText s"
  "m_messageText (updateToScale_content st s) = m_messageText s"
  "m_userpicOriginal (updateToScale_content st s) = m_userpicOriginal s"
  "m_userpicImage (updateToScale_content st s) = m_userpicImage s"
  "m_userpic (updateToScale_content st s) = m_userpic s"
  "m_ratio (updateToScale_content st s) = m_ratio s"
  "m_window (updateToScale_content st s) = m_window s"
  "m_shown (updateToScale_content st s) = m_shown s"
  "m_filter (updateToScale_content st s) = m_filter s"
  "m_shownAnimation (updateToScale_content st s) = m_shownAnimation s"
  "m_outer (updateToScale_content st s) = m_outer s"
  "m_minOuterSize (updateToScale_content st s) = m_minOuterSize s"
  "m_maxOuterSize (updateToScale_content st s) = m_maxOuterSize s"
  "w_hidden (updateToScale_content st s) = w_hidden s"
  "w_parent (updateToScale_content st s) = w_parent s"
  "w_geometry (updateToScale_content st s) = w_geometry s"
  "w_trace (updateToScale_content st s) = w_trace s"
  by (simp_all add: updateToScale_content_def Let_def)

lemma bubble_fields:
  "m_bubble (updateToScale_bubble st s) =
     QRect 0 0 (rect_width (m_content s) + scaled st s 13 + scaled st s 13)
       (rect_height (m_content s) + scaled st s 7 + scaled st s 8)"
  "m_content (updateToScale_bubble st s) =
     QRect (scaled st s 13 - rect_x (m_content s)) (scaled st s 7 - rect_y (m_content s))
       (rect_width (m_content s)) (rect_height (m_content s))"
  "m_bubbleCorners (updateToScale_bubble st s) = no_images"
  "m_bubbleTail (updateToScale_bubble st s) = NullImage"
  "m_bubbleShadowBottomRight (updateToScale_bubble st s) = NullImage"
  by (simp_all add: updateToScale_bubble_def Let_def rect_defs scaled_def)

lemma bubble_frame:
  "m_scale (updateToScale_bubble st s) = m_scale s"
  "m_nameStyle (updateToScale_bubble st s) = m_nameStyle s"
  "m_textStyle (updateToScale_bubble st s) = m_textStyle s"
  "m_nameText (updateToScale_bubble st s) = m_nameText s"
  "m_replyText (updateToScale_bubble st s) = m_replyText s"
  "m_messageText (updateToScale_bubble st s) = m_messageText s"
  "m_replyBar (updateToScale_bubble st s) = m_replyBar s"
  "m_name (updateToScale_bubble st s) = m_name s"
  "m_reply (updateToScale_bubble st s) = m_reply s"
  "m_message (updateToScale_bubble st s) = m_message s"
  "m_userpicOriginal (updateToScale_bubble st s) = m_userpicOriginal s"
  "m_userpicImage (updateToScale_bubble st s) = m_userpicImage s"
  "m_userpic (updateToScale_bubble st s) = m_userpic s"
  "m_ratio (updateToScale_bubble st s) = m_ratio s"
  "m_window (updateToScale_bubble st s) = m_window s"
  "m_shown (updateToScale_bubble st s) = m_shown s"
  "m_filter (updateToScale_bubble st s) = m_filter s"
  "m_shownAnimation (updateToScale_bubble st s) = m_shownAnimation s"
  "m_outer (updateToScale_bubble st s) = m_outer s"
  "m_minOuterSize (updateToScale_bubble st s) = m_minOuterSize s"
  "m_maxOuterSize (updateToScale_bubble st s) = m_maxOuterSize s"
  "w_hidden (updateToScale_bubble st s) = w_hidden s"
  "w_parent (updateToScale_bubble st s) = w_parent s"
  "w_geometry (updateToScale_bubble st s) = w_geometry s"
  "w_trace (updateToScale_bubble st s) = w_trace s"
  by (simp_all add: updateToScale_bubble_def Let_def)

lemma inner_fields:
  "m_inner (updateToScale_inner st s) =
     QRect 0 0
       (rect_width (m_bubble s) + (scaled st s 20
          + (if image_isNull (m_userpicOriginal s) then 0 else scaled st s 40)) + scaled st s 20)
       (rect_height (m_bubble s) + scaled st s 16 + scaled st s 16)"
  "m_bubble (updateToScale_inner st s) =
     QRect (scaled st s 20 + (if image_isNull (m_userpicOriginal s) then 0 else scaled st s 40)
              - rect_x (m_bubble s))
       (scaled st s 16 - rect_y (m_bubble s)) (rect_width (m_bubble s)) (rect_height (m_bubble s))"
  "m_userpic (updateToScale_inner st s) =
     (if image_isNull (m_userpicOriginal s) then m_userpic s
      else QRect (scaled st s 20)
             (scaled st s 16 - rect_y (m_bubble s) + rect_height (m_bubble s) - scaled st s 33)
             (scaled st s 33) (scaled st s 33))"
  "m_userpicImage (updateToScale_inner st s) =
     (if image_isNull (m_userpicOriginal s) then m_userpicImage s else NullImage)"
  by (simp_all add: updateToScale_inner_def Let_def rect_defs scaled_def)

lemma inner_frame:
  "m_scale (updateToScale_inner st s) = m_scale s"
  "m_nameStyle (updateToScale_inner st s) = m_nameStyle s"
  "m_textStyle (updateToScale_inner st s) = m_textStyle s"
  "m_nameText (updateToScale_inner st s) = m_nameText s"
  "m_replyText (updateToScale_inner st s) = m_replyText s"
  "m_messageText (updateToScale_inner st s) = m_messageText s"
  "m_replyBar (updateToScale_inner st s) = m_replyBar s"
  "m_name (updateToScale_inner st s) = m_name s"
  "m_reply (updateToScale_inner st s) = m_reply s"
  "m_message (updateToScale_inner st s) = m_message s"
  "m_content (updateToScale_inner st s) = m_content s"
  "m_bubbleCorners (updateToScale_inner st s) = m_bubbleCorners s"
  "m_bubbleTail (updateToScale_inner st s) = m_bubbleTail s"
  "m_bubbleShadowBottomRight (updateToScale_inner st s) = m_bubbleShadowBottomRight s"
  "m_userpicOriginal (updateToScale_inner st s) = m_userpicOriginal s"
  "m_ratio (updateToScale_inner st s) = m_ratio s"
  "m_window (updateToScale_inner st s) = m_window s"
  "m_shown (updateToScale_inner st s) = m_shown s"
  "m_filter (updateToScale_inner st s) = m_filter s"
  "m_shownAnimation (updateToScale_inner st s) = m_shownAnimation s"
  "m_outer (updateToScale_inner st s) = m_outer s"
  "m_minOuterSize (updateToScale_inner st s) = m_minOuterSize s"
  "m_maxOuterSize (updateToScale_inner st s) = m_maxOuterSize s"
  "w_hidden (updateToScale_inner st s) = w_hidden s"
  "w_parent (updateToScale_inner st s) = w_parent s"
  "w_geometry (updateToScale_inner st s) = w_geometry s"
  "w_trace (updateToScale_inner st s) = w_trace s"
  by (simp_all add: updateToScale_inner_def Let_def)

lemma outer_fields:
  "m_outer (updateToScale_outer st s) =
     QRect 0 0 (rect_width (m_inner s) + scaled st s 9 + scaled st s 9)
       (rect_height (m_inner s) + scaled st s 8 + scaled st s 10)"
  "m_inner (updateToScale_outer st s) =
     QRect (scaled st s 9 - rect_x (m_inner s)) (scaled st s 8 - rect_y (m_inner s))
       (rect_width (m_inner s)) (rect_height (m_inner s))"
  "m_shadowSides (updateToScale_outer st s) = no_images"
  "m_shadowCorners (updateToScale_outer st s) = no_images"
  "w_trace (updateToScale_outer st s) = w_trace s @ [WidgetUpdate (m_outer s)]"
  by (simp_all add: updateToScale_outer_def Let_def rect_defs scaled_def update_def emit_def)

lemma outer_frame:
  "m_scale (updateToScale_outer st s) = m_scale s"
  "m_nameStyle (updateToScale_outer st s) = m_nameStyle s"
  "m_textStyle (updateToScale_outer st s) = m_textStyle s"
  "m_nameText (updateToScale_outer st s) = m_nameText s"
  "m_replyText (updateToScale_outer st s) = m_replyText s"
  "m_messageText (updateToScale_outer st s) = m_messageText s"
  "m_replyBar (updateToScale_outer st s) = m_replyBar s"
  "m_name (updateToScale_outer st s) = m_name s"
  "m_reply (updateToScale_outer st s) = m_reply s"
  "m_message (updateToScale_outer st s) = m_message s"
  "m_content (updateToScale_outer st s) = m_content s"
  "m_bubble (updateToScale_outer st s) = m_bubble s"
  "m_bubbleCorners (updateToScale_outer st s) = m_bubbleCorners s"
  "m_bubbleTail (updateToScale_outer st s) = m_bubbleTail s"
  "m_bubbleShadowBottomRight (updateToScale_outer st s) = m_bubbleShadowBottomRight s"
  "m_userpicOriginal (updateToScale_outer st s) = m_userpicOriginal s"
  "m_userpicImage (updateToScale_outer st s) = m_userpicImage s"
  "m_userpic (updateToScale_outer st s) = m_userpic s"
  "m_ratio (updateToScale_outer st s) = m_ratio s"
  "m_window (updateToScale_outer st s) = m_window s"
  "m_shown (updateToScale_outer st s) = m_shown s"
  "m_filter (updateToScale_outer st s) = m_filter s"
  "m_shownAnimation (updateToScale_outer st s) = m_shownAnimation s"
  "m_minOuterSize (updateToScale_outer st s) = m_minOuterSize s"
  "m_maxOuterSize (updateToScale_outer st s) = m_maxOuterSize s"
  "w_hidden (updateToScale_outer st s) = w_hidden s"
  "w_parent (updateToScale_outer st s) = w_parent s"
  "w_geometry (updateToScale_outer st s) = w_geometry s"
  by (simp_all add: updateToScale_outer_def Let_def update_def emit_def)

lemma buffers_frame:
  "m_scale (updateToScale_buffers st s) = m_scale s"
  "m_nameStyle (updateToScale_buffers st s) = m_nameStyle s"
  "m_textStyle (updateToScale_buffers st s) = m_textStyle s"
  "m_nameText (updateToScale_buffers st s) = m_nameText s"
  "m_replyText (updateToScale_buffers st s) = m_replyText s"
  "m_messageText (updateToScale_buffers st s) = m_messageText s"
  "m_replyBar (updateToScale_buffers st s) = m_replyBar s"
  "m_name (updateToScale_buffers st s) = m_name s"
  "m_reply (updateToScale_buffers st s) = m_reply s"
  "m_message (updateToScale_buffers st s) = m_message s"
  "m_content (updateToScale_buffers st s) = m_content s"
  "m_bubble (updateToScale_buffers st s) = m_bubble s"
  "m_inner (updateToScale_buffers st s) = m_inner s"
  "m_outer (updateToScale_buffers st s) = m_outer s"
  "m_bubbleCorners (updateToScale_buffers st s) = m_bubbleCorners s"
  "m_bubbleTail (updateToScale_buffers st s) = m_bubbleTail s"
  "m_bubbleShadowBottomRight (updateToScale_buffers st s) = m_bubbleShadowBottomRight s"
  "m_shadowSides (updateToScale_buffers st s) = m_shadowSides s"
  "m_shadowCorners (updateToScale_buffers st s) = m_shadowCorners s"
  "m_userpicOriginal (updateToScale_buffers st s) = m_userpicOriginal s"
  "m_userpicImage (updateToScale_buffers st s) = m_userpicImage s"
  "m_userpic (updateToScale_buffers st s) = m_userpic s"
  "m_ratio (updateToScale_buffers st s) = m_ratio s"
  "m_window (updateToScale_buffers st s) = m_window s"
  "m_shown (updateToScale_buffers st s) = m_shown s"
  "m_filter (updateToScale_buffers st s) = m_filter s"
  "m_shownAnimation (updateToScale_buffers st s) = m_shownAnimation s"
  "m_minOuterSize (updateToScale_buffers st s) = m_minOuterSize s"
  "m_maxOuterSize (updateToScale_buffers st s) = m_maxOuterSize s"
  "w_hidden (updateToScale_buffers st s) = w_hidden s"
  "w_parent (updateToScale_buffers st s) = w_parent s"
  "w_geometry (updateToScale_buffers st s) = w_geometry s"
  "w_trace (updateToScale_buffers st s) = w_trace s"
  by (simp_all add: updateToScale_buffers_def Let_def)

lemmas stage_simps = texts_fields texts_frame content_fields content_frame bubble_fields
  bubble_frame inner_fields inner_frame outer_fields outer_frame buffers_frame

lemma updateToScale_unfold:
  "m_scale s \<noteq> sc \<Longrightarrow>
   updateToScale st sc s =
     updateToScale_buffers st (updateToScale_outer st (updateToScale_inner st
       (updateToScale_bubble st (updateToScale_content st (updateToScale_texts st sc s)))))"
  by (simp add: updateToScale_def)

lemma updateToScale_layout:
  assumes "m_scale s \<noteq> sc"
  shows "layout_messageWidth st (updateToScale st sc s)
           = layout_messageWidth st (updateToScale_texts st sc s)"
    and "layout_messageHeight st (updateToScale st sc s)
           = layout_messageHeight st (updateToScale_texts st sc s)"
  using assms
  by (simp_all add: updateToScale_unfold layout_messageWidth_def layout_messageHeight_def
      scaled_def stage_simps)

lemma updateToScale_frame:
  assumes "m_scale s \<noteq> sc"
  shows "m_scale (updateToScale st sc s) = sc"
    and "m_userpicOriginal (updateToScale st sc s) = m_userpicOriginal s"
    and "m_nameText (updateToScale st sc s) = m_nameText (updateToScale_texts st sc s)"
    and "m_replyText (updateToScale st sc s) = m_replyText (updateToScale_texts st sc s)"
    and "m_messageText (updateToScale st sc s) = m_messageText (updateToScale_texts st sc s)"
    and "m_nameStyle (updateToScale st sc s) = m_nameStyle (updateToScale_texts st sc s)"
    and "m_textStyle (updateToScale st sc s) = m_textStyle (updateToScale_texts st sc s)"
  using assms by (simp_all add: updateToScale_unfold stage_simps)

lemma updateToScale_rects:
  fixes st :: Style and sc :: int and s :: Preview
  assumes "m_scale s \<noteq> sc"
  defines "t \<equiv> updateToScale_texts st sc s"
  defines "W \<equiv> layout_messageWidth st t" and "H \<equiv> layout_messageHeight st t"
  defines "us \<equiv> (if image_isNull (m_userpicOriginal s) then 0 else ConvertScale st 40 sc)"
  shows "m_replyBar (updateToScale st sc s) =
           QRect (ConvertScale st 1 sc) (ConvertScale st 6 sc) (ConvertScale st 2 sc)
             (ConvertScale st 36 sc)"
    and "m_name (updateToScale st sc s) =
           QRect (ConvertScale st 10 sc) (ConvertScale st 6 sc) (W - ConvertScale st 10 sc)
             (font_height st (ts_font (m_nameStyle t)))"
    and "m_reply (updateToScale st sc s) =
           QRect (ConvertScale st 10 sc)
             (ConvertScale st 6 sc + font_height st (ts_font (m_nameStyle t)))
             (W - ConvertScale st 10 sc) (font_height st (ts_font (m_textStyle t)))"
    and "m_message (updateToScale st sc s) =
           QRect 0 (ConvertScale st 6 sc + ConvertScale st 36 sc + ConvertScale st 6 sc) W H"
    and "m_content (updateToScale st sc s) =
           QRect (ConvertScale st 13 sc) (ConvertScale st 7 sc) W
             (ConvertScale st 6 sc + ConvertScale st 36 sc + ConvertScale st 6 sc + H)"
    and "m_bubble (updateToScale st sc s) =
           QRect (ConvertScale st 20 sc + us) (ConvertScale st 16 sc)
             (W + ConvertScale st 13 sc + ConvertScale st 13 sc)
             (ConvertScale st 6 sc + ConvertScale st 36 sc + ConvertScale st 6 sc + H
                + ConvertScale st 7 sc + ConvertScale st 8 sc)"
    and "m_inner (updateToScale st sc s) =
           QRect (ConvertScale st 9 sc) (ConvertScale st 8 sc)
             (W + ConvertScale st 13 sc + ConvertScale st 13 sc
                + (ConvertScale st 20 sc + us) + ConvertScale st 20 sc)
             (ConvertScale st 6 sc + ConvertScale st 36 sc + ConvertScale st 6 sc + H
                + ConvertScale st 7 sc + ConvertScale st 8 sc
                + ConvertScale st 16 sc + ConvertScale st 16 sc)"
    and "m_outer (updateToScale st sc s) =
           QRect 0 0
             (W + ConvertScale st 13 sc + ConvertScale st 13 sc
                + (ConvertScale st 20 sc + us) + ConvertScale st 20 sc
                + ConvertScale st 9 sc + ConvertScale st 9 sc)
             (ConvertScale st 6 sc + ConvertScale st 36 sc + ConvertScale st 6 sc + H
                + ConvertScale st 7 sc + ConvertScale st 8 sc
                + ConvertScale st 16 sc + ConvertScale st 16 sc
                + ConvertScale st 8 sc + ConvertScale st 10 sc)"
    and "\<not> image_isNull (m_userpicOriginal s) \<Longrightarrow>
         m_userpic (updateToScale st sc s) =
           QRect (ConvertScale st 20 sc)
             (ConvertScale st 16 sc
                + (ConvertScale st 6 sc + ConvertScale st 36 sc + ConvertScale st 6 sc + H
                   + ConvertScale st 7 sc + ConvertScale st 8 sc)
                - ConvertScale st 33 sc)
             (ConvertScale st 33 sc) (ConvertScale st 33 sc)"
  using assms(1) unfolding t_def W_def H_def us_def
  by (simp_all add: updateToScale_unfold scaled_def stage_simps)


lemma std_clamp_bounds: "lo \<le> hi \<Longrightarrow> lo \<le> std_clamp v lo hi \<and> std_clamp v lo hi \<le> hi"
  by (simp add: std_clamp_def)

lemma std_clamp_mono:
  "v1 \<le> v2 \<Longrightarrow> lo1 \<le> lo2 \<Longrightarrow> hi1 \<le> hi2 \<Longrightarrow> lo1 \<le> hi1 \<Longrightarrow>
   std_clamp v1 lo1 hi1 \<le> std_clamp v2 lo2 hi2"
  by (simp add: std_clamp_def)


lemma updateToScale_message_height:
  assumes "m_scale s \<noteq> sc"
  shows "rect_height (m_message (updateToScale st sc s)) =
           min (text_countHeight st (m_messageText (updateToScale st sc s)) (ConvertScale st 320 sc))
             (3 * font_height st (ts_font (m_textStyle (updateToScale st sc s))))"
  using assms
  by (simp add: updateToScale_rects layout_messageHeight_def scaled_def texts_fields
      updateToScale_frame)


lemma updateToScale_keeps:
  "m_window (updateToScale st sc s) = m_window s"
  "m_shown (updateToScale st sc s) = m_shown s"
  "m_filter (updateToScale st sc s) = m_filter s"
  "m_shownAnimation (updateToScale st sc s) = m_shownAnimation s"
  "m_userpicOriginal (updateToScale st sc s) = m_userpicOriginal s"
  "m_ratio (updateToScale st sc s) = m_ratio s"
  "m_minOuterSize (updateToScale st sc s) = m_minOuterSize s"
  "m_maxOuterSize (updateToScale st sc s) = m_maxOuterSize s"
  "w_hidden (updateToScale st sc s) = w_hidden s"
  "w_parent (updateToScale st sc s) = w_parent s"
  "w_geometry (updateToScale st sc s) = w_geometry s"
  by (cases "m_scale s = sc"; simp add: updateToScale_def stage_simps)+

lemma updateToScale_caches:
  assumes "m_scale s \<noteq> sc"
  shows "m_shadowSides (updateToScale st sc s) = no_images"
    and "m_shadowCorners (updateToScale st sc s) = no_images"
    and "m_bubbleCorners (updateToScale st sc s) = no_images"
    and "m_bubbleTail (updateToScale st sc s) = NullImage"
    and "m_bubbleShadowBottomRight (updateToScale st sc s) = NullImage"
    and "\<not> image_isNull (m_userpicOriginal s) \<Longrightarrow> m_userpicImage (updateToScale st sc s) = NullImage"
  using assms by (simp_all add: updateToScale_unfold stage_simps)

lemma updateToScale_outer_rect:
  assumes "m_scale s \<noteq> sc"
  shows "m_outer (updateToScale st sc s) =
           QRect 0 0
             (layout_messageWidth st (updateToScale st sc s)
                + ConvertScale st 13 sc + ConvertScale st 13 sc
                + (ConvertScale st 20 sc
                   + (if image_isNull (m_userpicOriginal s) then 0 else ConvertScale st 40 sc))
                + ConvertScale st 20 sc + ConvertScale st 9 sc + ConvertScale st 9 sc)
             (ConvertScale st 6 sc + ConvertScale st 36 sc + ConvertScale st 6 sc
                + layout_messageHeight st (updateToScale st sc s)
                + ConvertScale st 7 sc + ConvertScale st 8 sc
                + ConvertScale st 16 sc + ConvertScale st 16 sc
                + ConvertScale st 8 sc + ConvertScale st 10 sc)"
  using assms by (simp add: updateToScale_rects updateToScale_layout)

lemma updateGlobalPosition_embedded:
  "\<not> m_window s \<Longrightarrow>
   updateGlobalPosition globalX s =
     widget_setGeometry (QRect_of (parent_pos (w_parent s)) (rect_size (m_outer s))) s"
  by (simp add: updateGlobalPosition_def updateOuterPosition_def widget_setGeometry_def emit_def
      Let_def)

lemma toggle_Show_embedded:
  assumes "\<not> m_shown s" and "\<not> m_window s"
  shows "m_shown (toggle st Show sc gx s)"
    and "\<not> w_hidden (toggle st Show sc gx s)"
    and "m_shownAnimation (toggle st Show sc gx s)
           = Simple_start 0 1 (st_slideWrapDuration st) (m_shownAnimation s)"
  using assms
  by (simp_all add: toggle_def Let_def updateGlobalPosition_embedded updateToScale_keeps
      widget_setGeometry_def emit_def toggleShown_def toggleFilter_def animation_start_def
      widget_show_def)


section \<open>A shown preview is on screen\<close>

text \<open>
  The constructor, \<open>toggle\<close> and the ticks of the animation keep the widget of a shown
  preview unhidden: \<open>toggleShown\<close> shows the widget when it sets \<open>m_shown\<close>, and the
  callback hides it only when \<open>m_shown\<close> is off.
\<close>

lemma updateOuterPosition_keeps:
  "m_shown (updateOuterPosition globalX s) = m_shown s"
  "w_hidden (updateOuterPosition globalX s) = w_hidden s"
  "m_shownAnimation (updateOuterPosition globalX s) = m_shownAnimation s"
  by (simp_all add: updateOuterPosition_def update_def emit_def Let_def)

lemma widget_setGeometry_keeps:
  "m_shown (widget_setGeometry r s) = m_shown s"
  "w_hidden (widget_setGeometry r s) = w_hidden s"
  "m_shownAnimation (widget_setGeometry r s) = m_shownAnimation s"
  by (simp_all add: widget_setGeometry_def emit_def)

lemma updateWindowGlobalPosition_keeps:
  "m_shown (updateWindowGlobalPosition global globalX s) = m_shown s"
  "w_hidden (updateWindowGlobalPosition global globalX s) = w_hidden s"
  "m_shownAnimation (updateWindowGlobalPosition global globalX s) = m_shownAnimation s"
  by (simp_all add: updateWindowGlobalPosition_def Let_def updateOuterPosition_keeps
      widget_setGeometry_keeps)

lemma updateGlobalPosition_keeps:
  "m_shown (updateGlobalPosition globalX s) = m_shown s"
  "w_hidden (updateGlobalPosition globalX s) = w_hidden s"
  "m_shownAnimation (updateGlobalPosition globalX s) = m_shownAnimation s"
  by (simp_all add: updateGlobalPosition_def Let_def updateWindowGlobalPosition_keeps
      updateOuterPosition_keeps widget_setGeometry_keeps)

lemma toggleShown_on_screen:
  "m_shown s \<longrightarrow> \<not> w_hidden s \<Longrightarrow>
   m_shown (toggleShown st shown s) \<longrightarrow> \<not> w_hidden (toggleShown st shown s)"
  by (simp add: toggleShown_def toggleFilter_def animation_start_def animation_stop_def
      widget_show_def emit_def Let_def)

lemma toggle_on_screen:
  assumes "m_shown s \<longrightarrow> \<not> w_hidden s"
  shows "m_shown (toggle st show scale globalX s)
         \<longrightarrow> \<not> w_hidden (toggle st show scale globalX s)"
proof (cases "show = Hide \<or> (show = Update \<and> \<not> m_shown s)")
  case True
  then show ?thesis
    using assms toggleShown_on_screen [OF assms, of st False] by (auto simp add: toggle_def)
next
  case False
  let ?u = "updateGlobalPosition globalX (updateToScale st scale s)"
  let ?v = "if w_hidden ?u then emit UpdateOverlayed ?u else ?u"
  have "m_shown ?v \<longrightarrow> \<not> w_hidden ?v"
    using assms by (auto simp add: updateGlobalPosition_keeps updateToScale_keeps emit_def)
  then have "m_shown (toggleShown st True ?v) \<longrightarrow> \<not> w_hidden (toggleShown st True ?v)"
    by (rule toggleShown_on_screen)
  then show ?thesis
    using False by (simp add: toggle_def Let_def)
qed

lemma animation_tick_on_screen:
  "m_shown s \<longrightarrow> \<not> w_hidden s \<Longrightarrow>
   m_shown (animation_tick dt s) \<longrightarrow> \<not> w_hidden (animation_tick dt s)"
  by (simp add: animation_tick_def shown_callback_def update_def emit_def widget_hide_def Let_def)

lemma Preview_new_on_screen:
  "m_shown (Preview_new st parent geometry hidden userpic) \<longrightarrow>
   \<not> w_hidden (Preview_new st parent geometry hidden userpic)"
proof -
  have f: "m_shown (fold on_userpic imgs p) = m_shown p" for imgs p
    by (induction imgs arbitrary: p) (simp_all add: on_userpic_def update_def emit_def Let_def)
  show ?thesis
    by (simp add: Preview_new_def init_def Let_def updateToScale_keeps initAsWindow_def
        widget_hide_def emit_def f Preview_members_def)
qed


section \<open>Ticks of the hide animation\<close>

lemma ticks_idle:
  "\<not> Simple_animating (m_shownAnimation u) \<Longrightarrow> fold animation_tick dts u = u"
  by (induction dts) (simp_all add: animation_tick_def)

lemma tick_running:
  assumes "Simple_animating (m_shownAnimation u)" and "\<not> m_shown u"
  defines "a \<equiv> m_shownAnimation u"
  shows "anim_duration a \<le> anim_elapsed a + dt \<Longrightarrow>
           w_hidden (animation_tick dt u)
           \<and> \<not> Simple_animating (m_shownAnimation (animation_tick dt u))"
    and "anim_elapsed a + dt < anim_duration a \<Longrightarrow>
           w_hidden (animation_tick dt u) = w_hidden u
           \<and> \<not> m_shown (animation_tick dt u)
           \<and> Simple_animating (m_shownAnimation (animation_tick dt u))
           \<and> anim_duration (m_shownAnimation (animation_tick dt u)) = anim_duration a
           \<and> anim_elapsed (m_shownAnimation (animation_tick dt u)) = anim_elapsed a + dt"
  using assms(1,2) unfolding a_def
  by (simp_all add: animation_tick_def shown_callback_def Simple_advance_def Simple_animating_def
      update_def emit_def widget_hide_def Let_def)

lemma ticks_hide:
  assumes "Simple_animating (m_shownAnimation u)" and "\<not> m_shown u" and "\<not> w_hidden u"
    and "anim_elapsed (m_shownAnimation u) < anim_duration (m_shownAnimation u)"
    and "\<forall>dt\<in>set dts. 0 \<le> dt"
  shows "w_hidden (fold animation_tick dts u)
         \<longleftrightarrow> anim_duration (m_shownAnimation u) \<le> anim_elapsed (m_shownAnimation u) + sum_list dts"
  using assms
proof (induction dts arbitrary: u)
  case Nil
  then show ?case by simp
next
  case (Cons dt dts)
  have rest: "0 \<le> sum_list dts"
    using Cons.prems(5) by (simp add: sum_list_nonneg)
  show ?case
  proof (cases "anim_duration (m_shownAnimation u) \<le> anim_elapsed (m_shownAnimation u) + dt")
    case True
    have "w_hidden (animation_tick dt u)"
      and "\<not> Simple_animating (m_shownAnimation (animation_tick dt u))"
      using tick_running(1) [OF Cons.prems(1,2) True] by simp_all
    then have "w_hidden (fold animation_tick (dt # dts) u)"
      by (simp add: ticks_idle)
    then show ?thesis
      using True rest by simp
  next
    case False
    then have less: "anim_elapsed (m_shownAnimation u) + dt < anim_duration (m_shownAnimation u)"
      by simp
    note step = tick_running(2) [OF Cons.prems(1,2) less]
    have "w_hidden (fold animation_tick dts (animation_tick dt u))
          \<longleftrightarrow> anim_duration (m_shownAnimation (animation_tick dt u))
               \<le> anim_elapsed (m_shownAnimation (animation_tick dt u)) + sum_list dts"
      using step Cons.prems(3,5) less by (intro Cons.IH) simp_all
    then show ?thesis
      using step by (simp add: add.assoc)
  qed
qed


section \<open>The example instance, evaluated\<close>

lemma example_style_fields:
  "ConvertScale example_style = example_ConvertScale"
  "font_height example_style = example_font_height"
  "text_maxWidth example_style = example_maxWidth"
  "text_countHeight example_style = example_countHeight"
  "kScaleMin example_style = 50"
  "kScaleMax example_style = 300"
  "st_slideWrapDuration example_style = 100"
  by (simp_all add: example_style_def)

lemma example_preview_fields:
  "m_scale example_preview = 0"
  "m_shown example_preview = False"
  "m_window example_preview = False"
  "m_filter example_preview = False"
  "w_hidden example_preview = True"
  "w_trace example_preview = []"
  "w_parent example_preview = example_slider"
  "w_geometry example_preview = QRect 0 0 100 30"
  "m_userpicOriginal example_preview = NullImage"
  "m_userpicImage example_preview = NullImage"
  "m_nameStyle example_preview = example_TextStyle"
  "m_textStyle example_preview = example_TextStyle"
  "m_outer example_preview = QRect 0 0 0 0"
  "m_shownAnimation example_preview = Simple_idle"
  "m_ratio example_preview = 1"
  by (simp_all add: example_preview_def Preview_new_def init_def Preview_members_def
      UseSeparateWindow_def example_style_def)

lemma example_ConvertScale_100: "0 \<le> v \<Longrightarrow> example_ConvertScale v 100 = v"
  by (auto simp add: example_ConvertScale_def example_round_def Let_def)

lemma example_widths_100:
  "example_maxWidth (m_nameText (updateToScale example_style 100 example_preview)) = 70"
  "example_maxWidth (m_replyText (updateToScale example_style 100 example_preview)) = 91"
  "example_maxWidth (m_messageText (updateToScale example_style 100 example_preview)) = 196"
  by (simp_all add: updateToScale_frame example_preview_fields example_style_fields texts_fields
      example_maxWidth_def example_ConvertScale_100)

lemma example_heights_100:
  "example_font_height (ts_font (m_textStyle (updateToScale example_style 100 example_preview))) = 18"
  "example_font_height (ts_font (m_nameStyle (updateToScale example_style 100 example_preview))) = 18"
  "example_countHeight (m_messageText (updateToScale example_style 100 example_preview)) 320 = 18"
  by (simp_all add: updateToScale_frame example_preview_fields example_style_fields texts_fields
      example_maxWidth_def example_countHeight_def example_font_height_def example_ConvertScale_100)


lemma example_preview_userpic_fields:
  "m_scale example_preview_userpic = 0"
  "m_shown example_preview_userpic = False"
  "m_window example_preview_userpic = False"
  "w_hidden example_preview_userpic = True"
  "w_trace example_preview_userpic = []"
  "w_parent example_preview_userpic = example_slider"
  "m_userpicOriginal example_preview_userpic = UserpicSource 1"
  "m_userpicImage example_preview_userpic = NullImage"
  "m_nameStyle example_preview_userpic = example_TextStyle"
  "m_textStyle example_preview_userpic = example_TextStyle"
  "m_ratio example_preview_userpic = 1"
  by (simp_all add: example_preview_userpic_def Preview_new_def init_def Preview_members_def
      UseSeparateWindow_def example_style_def on_userpic_def image_isNull_def)

lemma example_round_mono:
  assumes "0 \<le> v" "0 \<le> S1" "S1 \<le> S2"
  shows "example_round v S1 \<le> example_round v S2"
proof -
  have "v * S1 \<le> v * S2"
    using assms by (simp add: mult_left_mono)
  then have le: "(v * S1 + 49) div 100 \<le> (v * S2 + 49) div 100"
    by (intro zdiv_mono1) simp_all
  have "0 \<le> v * S1"
    using assms by simp
  then have "0 \<le> (v * S1 + 49) div 100"
    by (intro pos_imp_zdiv_nonneg_iff [THEN iffD2]) simp_all
  then show ?thesis
    using le by (auto simp add: example_round_def Let_def)
qed

lemma example_ConvertScale_mono:
  "0 \<le> v \<Longrightarrow> 0 \<le> S1 \<Longrightarrow> S1 \<le> S2 \<Longrightarrow> example_ConvertScale v S1 \<le> example_ConvertScale v S2"
  by (simp add: example_ConvertScale_def example_round_mono)

lemma example_metrics:
  assumes "m_scale p \<noteq> sc"
  shows "example_maxWidth (m_nameText (updateToScale example_style sc p))
           = 10 * ((example_ConvertScale 13 sc + 1) div 2)"
    and "example_maxWidth (m_replyText (updateToScale example_style sc p))
           = 13 * ((example_ConvertScale 13 sc + 1) div 2)"
    and "example_maxWidth (m_messageText (updateToScale example_style sc p))
           = 28 * ((example_ConvertScale 13 sc + 1) div 2)"
    and "example_font_height (ts_font (m_nameStyle (updateToScale example_style sc p)))
           = example_ConvertScale 13 sc + example_ConvertScale 13 sc div 3 + 1"
    and "example_font_height (ts_font (m_textStyle (updateToScale example_style sc p)))
           = example_ConvertScale 13 sc + example_ConvertScale 13 sc div 3 + 1"
    and "example_countHeight (m_messageText (updateToScale example_style sc p)) w
           = (if w < 1 then 1
              else max 1 ((28 * ((example_ConvertScale 13 sc + 1) div 2) + w - 1) div w))
             * (example_ConvertScale 13 sc + example_ConvertScale 13 sc div 3 + 1)"
  using assms
  by (simp_all add: updateToScale_frame example_style_fields texts_fields
      example_maxWidth_def example_countHeight_def example_font_height_def)

lemma example_ConvertScale_150:
  "example_ConvertScale 13 150 = 19"
  "example_ConvertScale 120 150 = 180"
  "example_ConvertScale 320 150 = 480"
  by (simp_all add: example_ConvertScale_def example_round_def Let_def)



lemma example_scale_mono:
  "\<forall>v\<ge>0. ConvertScale example_style v 100 \<le> ConvertScale example_style v 150"
  by (simp add: example_style_fields example_ConvertScale_mono)


lemma example_outer_100:
  assumes "m_scale p \<noteq> 100" and "image_isNull (m_userpicOriginal p)"
  shows "m_outer (updateToScale example_style 100 p) = QRect 0 0 280 131"
  using assms
  by (simp add: updateToScale_outer_rect layout_messageWidth_def layout_messageHeight_def
      scaled_def updateToScale_frame(1) example_style_fields example_metrics
      example_ConvertScale_100 std_clamp_def)

lemma example_painted_fields:
  "m_userpicOriginal example_painted = UserpicSource 1"
  "m_userpicImage example_painted = Circle (UserpicSource 1) (QSize 33 33) 1"
  "m_shadowSides example_painted =
     Array4 (IconInstance CallShadowLeft WindowShadowFg 100)
       (IconInstance CallShadowTop WindowShadowFg 100)
       (IconInstance CallShadowRight WindowShadowFg 100)
       (IconInstance CallShadowBottom WindowShadowFg 100)"
  "m_shadowCorners example_painted =
     Array4 (IconInstance CallShadowTopLeft WindowShadowFg 100)
       (IconInstance CallShadowBottomLeft WindowShadowFg 100)
       (IconInstance CallShadowTopRight WindowShadowFg 100)
       (IconInstance CallShadowBottomRight WindowShadowFg 100)"
proof -
  let ?u = "updateToScale example_style 100 example_preview_userpic"
  have r: "m_scale example_preview_userpic \<noteq> 100"
    by (simp add: example_preview_userpic_fields)
  have pic: "\<not> image_isNull (m_userpicOriginal example_preview_userpic)"
    by (simp add: example_preview_userpic_fields image_isNull_def)
  have u: "m_userpicOriginal ?u = UserpicSource 1" "m_userpicImage ?u = NullImage"
    "m_ratio ?u = 1" "m_scale ?u = 100" "m_shadowSides ?u = no_images"
    using r pic
    by (simp_all add: updateToScale_keeps updateToScale_caches updateToScale_frame(1)
        example_preview_userpic_fields)
  have size: "rect_width (m_userpic ?u) = 33" "rect_height (m_userpic ?u) = 33"
    using r pic
    by (simp_all add: updateToScale_rects example_style_fields example_ConvertScale_100)
  have v: "validateUserpicCache ?u = ?u\<lparr>m_userpicImage := Circle (UserpicSource 1) (QSize 33 33) 1\<rparr>"
    by (simp add: validateUserpicCache_def u size image_isNull_def rect_isEmpty_def
        rect_size_def size_times_def)
  show "m_userpicOriginal example_painted = UserpicSource 1"
    "m_userpicImage example_painted = Circle (UserpicSource 1) (QSize 33 33) 1"
    "m_shadowSides example_painted =
       Array4 (IconInstance CallShadowLeft WindowShadowFg 100)
         (IconInstance CallShadowTop WindowShadowFg 100)
         (IconInstance CallShadowRight WindowShadowFg 100)
         (IconInstance CallShadowBottom WindowShadowFg 100)"
    "m_shadowCorners example_painted =
       Array4 (IconInstance CallShadowTopLeft WindowShadowFg 100)
         (IconInstance CallShadowBottomLeft WindowShadowFg 100)
         (IconInstance CallShadowTopRight WindowShadowFg 100)
         (IconInstance CallShadowBottomRight WindowShadowFg 100)"
    by (simp_all add: example_painted_def v validateShadowCache_def u no_images_def
        image_isNull_def scaled_icon_def)
qed

lemma example_showing_fields:
  "m_shown example_showing"
  "\<not> w_hidden example_showing"
  "m_shownAnimation example_showing =
     \<lparr>anim_running = True, anim_from = 0, anim_to = 1, anim_value = 1 / 4,
      anim_duration = 100, anim_elapsed = 25\<rparr>"
proof -
  let ?t = "toggle example_style Show 100 500 example_preview"
  have p: "\<not> m_shown example_preview" "\<not> m_window example_preview"
    by (simp_all add: example_preview_fields)
  note t = toggle_Show_embedded [OF p, of example_style 100 500]
  have an: "m_shownAnimation ?t =
      \<lparr>anim_running = True, anim_from = 0, anim_to = 1, anim_value = 0,
       anim_duration = 100, anim_elapsed = 0\<rparr>"
    by (simp add: t(3) Simple_start_def Simple_animating_def example_preview_fields
        Simple_idle_def example_style_fields)
  show "m_shown example_showing" "\<not> w_hidden example_showing"
    "m_shownAnimation example_showing =
       \<lparr>anim_running = True, anim_from = 0, anim_to = 1, anim_value = 1 / 4,
        anim_duration = 100, anim_elapsed = 25\<rparr>"
    using t(1,2)
    by (simp_all add: example_showing_def animation_tick_def an Simple_animating_def
        Simple_advance_def shown_callback_def update_def emit_def Let_def)
qed






section \<open>The geometry\<close>

text \<open>
  Claim C6. Recompute the layout at a scale \<open>S1\<close> and at a larger scale \<open>S2\<close>, from
  the same preview or from two previews that agree on having a userpic (as one that is
  first laid out at \<open>S1\<close> and then at \<open>S2\<close>). When what the layout takes from outside
  does not decrease from \<open>S1\<close> to \<open>S2\<close> (\<open>ConvertScale\<close> of every non-negative value, the
  natural widths of the three texts, the height of the text font, the wrapped height
  of the message) and the bounds of \<^verbatim>\<open>std::clamp\<close> are in order at \<open>S1\<close>, then the
  widths and the heights of the outer, inner and bubble rects at \<open>S2\<close> are at least
  those at \<open>S1\<close>.
\<close>

theorem geometry_monotone:
  fixes st :: Style and s1 :: Preview and s2 :: Preview and S1 :: int and S2 :: int
  defines "a \<equiv> updateToScale st S1 s1" and "b \<equiv> updateToScale st S2 s2"
  assumes order: "S1 < S2"
    and recompute: "m_scale s1 \<noteq> S1" "m_scale s2 \<noteq> S2"
    and userpic: "image_isNull (m_userpicOriginal s1) = image_isNull (m_userpicOriginal s2)"
    and scale_mono: "\<forall>v\<ge>0. ConvertScale st v S1 \<le> ConvertScale st v S2"
    and bounds: "ConvertScale st 120 S1 \<le> ConvertScale st 320 S1"
    and name_w: "text_maxWidth st (m_nameText a) \<le> text_maxWidth st (m_nameText b)"
    and reply_w: "text_maxWidth st (m_replyText a) \<le> text_maxWidth st (m_replyText b)"
    and message_w: "text_maxWidth st (m_messageText a) \<le> text_maxWidth st (m_messageText b)"
    and text_h: "font_height st (ts_font (m_textStyle a)) \<le> font_height st (ts_font (m_textStyle b))"
    and wrapped: "text_countHeight st (m_messageText a) (scaled st a kMaxTextWidth)
                    \<le> text_countHeight st (m_messageText b) (scaled st b kMaxTextWidth)"
  shows "rect_width (m_outer a) \<le> rect_width (m_outer b)
         \<and> rect_height (m_outer a) \<le> rect_height (m_outer b)
         \<and> rect_width (m_inner a) \<le> rect_width (m_inner b)
         \<and> rect_height (m_inner a) \<le> rect_height (m_inner b)
         \<and> rect_width (m_bubble a) \<le> rect_width (m_bubble b)
         \<and> rect_height (m_bubble a) \<le> rect_height (m_bubble b)"
proof -
  define ta where "ta = updateToScale_texts st S1 s1"
  define tb where "tb = updateToScale_texts st S2 s2"
  define c1 where "c1 v = ConvertScale st v S1" for v
  define c2 where "c2 v = ConvertScale st v S2" for v
  have cs: "c1 6 \<le> c2 6" "c1 7 \<le> c2 7" "c1 8 \<le> c2 8" "c1 9 \<le> c2 9" "c1 10 \<le> c2 10"
    "c1 13 \<le> c2 13" "c1 16 \<le> c2 16" "c1 20 \<le> c2 20" "c1 36 \<le> c2 36" "c1 40 \<le> c2 40"
    "c1 120 \<le> c2 120" "c1 320 \<le> c2 320"
    using scale_mono by (simp_all add: c1_def c2_def)
  have sc: "m_scale ta = S1" "m_scale tb = S2"
    by (simp_all add: ta_def tb_def texts_fields)
  have widths:
    "text_maxWidth st (m_nameText ta) \<le> text_maxWidth st (m_nameText tb)"
    "text_maxWidth st (m_replyText ta) \<le> text_maxWidth st (m_replyText tb)"
    "text_maxWidth st (m_messageText ta) \<le> text_maxWidth st (m_messageText tb)"
    using name_w reply_w message_w recompute
    by (simp_all add: a_def b_def ta_def tb_def updateToScale_frame)
  have W: "layout_messageWidth st ta \<le> layout_messageWidth st tb"
    unfolding layout_messageWidth_def scaled_def sc
    using widths cs bounds
    by (intro std_clamp_mono max.mono add_mono) (simp_all add: c1_def c2_def)
  have th: "font_height st (ts_font (m_textStyle ta)) \<le> font_height st (ts_font (m_textStyle tb))"
    using text_h recompute by (simp add: a_def b_def ta_def tb_def updateToScale_frame)
  have ch: "text_countHeight st (m_messageText ta) (c1 320)
              \<le> text_countHeight st (m_messageText tb) (c2 320)"
    using wrapped recompute
    by (simp add: a_def b_def ta_def tb_def c1_def c2_def scaled_def updateToScale_frame
        kMaxTextWidth_def)
  have H: "layout_messageHeight st ta \<le> layout_messageHeight st tb"
    unfolding layout_messageHeight_def scaled_def sc
    using th ch by (simp add: c1_def c2_def min_le_iff_disj)
  define ua where "ua = (if image_isNull (m_userpicOriginal s1) then 0 else c1 40)"
  define ub where "ub = (if image_isNull (m_userpicOriginal s2) then 0 else c2 40)"
  have us: "ua \<le> ub"
    using cs userpic by (simp add: ua_def ub_def)
  have ra:
    "rect_width (m_bubble a) = layout_messageWidth st ta + c1 13 + c1 13"
    "rect_height (m_bubble a) = c1 6 + c1 36 + c1 6 + layout_messageHeight st ta + c1 7 + c1 8"
    "rect_width (m_inner a) = rect_width (m_bubble a) + (c1 20 + ua) + c1 20"
    "rect_height (m_inner a) = rect_height (m_bubble a) + c1 16 + c1 16"
    "rect_width (m_outer a) = rect_width (m_inner a) + c1 9 + c1 9"
    "rect_height (m_outer a) = rect_height (m_inner a) + c1 8 + c1 10"
    using recompute(1)
    by (simp_all add: a_def ta_def c1_def ua_def updateToScale_rects)
  have rb:
    "rect_width (m_bubble b) = layout_messageWidth st tb + c2 13 + c2 13"
    "rect_height (m_bubble b) = c2 6 + c2 36 + c2 6 + layout_messageHeight st tb + c2 7 + c2 8"
    "rect_width (m_inner b) = rect_width (m_bubble b) + (c2 20 + ub) + c2 20"
    "rect_height (m_inner b) = rect_height (m_bubble b) + c2 16 + c2 16"
    "rect_width (m_outer b) = rect_width (m_inner b) + c2 9 + c2 9"
    "rect_height (m_outer b) = rect_height (m_inner b) + c2 8 + c2 10"
    using recompute(2)
    by (simp_all add: b_def tb_def c2_def ub_def updateToScale_rects)
  have bw: "rect_width (m_bubble a) \<le> rect_width (m_bubble b)"
    using W cs by (simp add: ra(1) rb(1))
  have bh: "rect_height (m_bubble a) \<le> rect_height (m_bubble b)"
    using H cs by (simp add: ra(2) rb(2))
  have iw: "rect_width (m_inner a) \<le> rect_width (m_inner b)"
    using bw us cs by (simp add: ra(3) rb(3))
  have ih: "rect_height (m_inner a) \<le> rect_height (m_inner b)"
    using bh cs by (simp add: ra(4) rb(4))
  have ow: "rect_width (m_outer a) \<le> rect_width (m_outer b)"
    using iw cs by (simp add: ra(5) rb(5))
  have oh: "rect_height (m_outer a) \<le> rect_height (m_outer b)"
    using ih cs by (simp add: ra(6) rb(6))
  show ?thesis
    using bw bh iw ih ow oh by simp
qed

theorem geometry_monotone_witness:
  "(100::int) < 150
   \<and> rect_width (m_outer (updateToScale example_style 100 example_preview_userpic))
       \<le> rect_width (m_outer (updateToScale example_style 150
                (updateToScale example_style 100 example_preview_userpic)))
   \<and> rect_height (m_outer (updateToScale example_style 100 example_preview_userpic))
       \<le> rect_height (m_outer (updateToScale example_style 150
                (updateToScale example_style 100 example_preview_userpic)))
   \<and> rect_width (m_inner (updateToScale example_style 100 example_preview_userpic))
       \<le> rect_width (m_inner (updateToScale example_style 150
                (updateToScale example_style 100 example_preview_userpic)))
   \<and> rect_height (m_inner (updateToScale example_style 100 example_preview_userpic))
       \<le> rect_height (m_inner (updateToScale example_style 150
                (updateToScale example_style 100 example_preview_userpic)))
   \<and> rect_width (m_bubble (updateToScale example_style 100 example_preview_userpic))
       \<le> rect_width (m_bubble (updateToScale example_style 150
                (updateToScale example_style 100 example_preview_userpic)))
   \<and> rect_height (m_bubble (updateToScale example_style 100 example_preview_userpic))
       \<le> rect_height (m_bubble (updateToScale example_style 150
                (updateToScale example_style 100 example_preview_userpic)))"
proof -
  let ?p = example_preview_userpic
  let ?a = "updateToScale example_style 100 ?p"
  let ?b = "updateToScale example_style 150 ?a"
  have order: "(100::int) < 150"
    by simp
  have r1: "m_scale ?p \<noteq> 100" and r2: "m_scale ?a \<noteq> 150"
    by (simp_all add: example_preview_userpic_fields updateToScale_frame(1))
  have pic: "image_isNull (m_userpicOriginal ?p) = image_isNull (m_userpicOriginal ?a)"
    by (simp add: updateToScale_keeps)
  have bounds: "ConvertScale example_style 120 100 \<le> ConvertScale example_style 320 100"
    by (simp add: example_style_fields example_ConvertScale_100)
  have nw: "text_maxWidth example_style (m_nameText ?a) \<le> text_maxWidth example_style (m_nameText ?b)"
    and rw: "text_maxWidth example_style (m_replyText ?a)
               \<le> text_maxWidth example_style (m_replyText ?b)"
    and mw: "text_maxWidth example_style (m_messageText ?a)
               \<le> text_maxWidth example_style (m_messageText ?b)"
    and th: "font_height example_style (ts_font (m_textStyle ?a))
               \<le> font_height example_style (ts_font (m_textStyle ?b))"
    using r1 r2
    by (simp_all add: example_style_fields example_metrics example_ConvertScale_100
        example_ConvertScale_150)
  have ch: "text_countHeight example_style (m_messageText ?a) (scaled example_style ?a kMaxTextWidth)
              \<le> text_countHeight example_style (m_messageText ?b)
                   (scaled example_style ?b kMaxTextWidth)"
    using r1 r2
    by (simp add: example_style_fields example_metrics example_ConvertScale_100
        example_ConvertScale_150 scaled_def updateToScale_frame(1) kMaxTextWidth_def)
  show ?thesis
    using geometry_monotone [OF order r1 r2 pic example_scale_mono bounds nw rw mw th ch]
    by simp
qed





section \<open>The content width and the message height\<close>

text \<open>
  Claim C8. Whenever \<open>updateToScale\<close> recomputes the layout (the requested scale is not
  the stored one), the width of the content rect, which is also the width of the
  message rect, is the maximum of name start plus name width, reply start plus reply
  width and the natural width of the message, clamped by \<^verbatim>\<open>std::clamp\<close> to
  \<open>scaled 120\<close> and \<open>scaled 320\<close>; it lies between these two bounds. The widths of the
  three texts are arbitrary. \<^verbatim>\<open>std::clamp\<close> requires its lower bound not to exceed the
  upper one, which is the hypothesis on \<open>ConvertScale\<close>.
\<close>

theorem content_width_clamped:
  fixes st :: Style and scale :: int and s :: Preview
  defines "s' \<equiv> updateToScale st scale s"
  assumes recompute: "m_scale s \<noteq> scale"
    and bounds: "ConvertScale st 120 scale \<le> ConvertScale st 320 scale"
  shows "rect_width (m_content s') =
           std_clamp
             (max (scaled st s' 10 + text_maxWidth st (m_nameText s'))
                (max (scaled st s' 10 + text_maxWidth st (m_replyText s'))
                   (text_maxWidth st (m_messageText s'))))
             (scaled st s' kMinTextWidth) (scaled st s' kMaxTextWidth)
         \<and> scaled st s' kMinTextWidth \<le> rect_width (m_content s')
         \<and> rect_width (m_content s') \<le> scaled st s' kMaxTextWidth
         \<and> rect_width (m_message s') = rect_width (m_content s')"
proof -
  have w: "rect_width (m_content s') = layout_messageWidth st s'"
    and m: "rect_width (m_message s') = layout_messageWidth st s'"
    using recompute unfolding s'_def
    by (simp_all add: updateToScale_rects updateToScale_layout)
  have sc: "m_scale s' = scale"
    using recompute unfolding s'_def by (simp add: updateToScale_frame)
  have lo_hi: "scaled st s' kMinTextWidth \<le> scaled st s' kMaxTextWidth"
    using bounds by (simp add: scaled_def sc kMinTextWidth_def kMaxTextWidth_def)
  have eq: "layout_messageWidth st s' =
      std_clamp
        (max (scaled st s' 10 + text_maxWidth st (m_nameText s'))
           (max (scaled st s' 10 + text_maxWidth st (m_replyText s'))
              (text_maxWidth st (m_messageText s'))))
        (scaled st s' kMinTextWidth) (scaled st s' kMaxTextWidth)"
    by (simp add: layout_messageWidth_def kMinTextWidth_def kMaxTextWidth_def)
  show ?thesis
    using std_clamp_bounds [OF lo_hi] by (simp add: w m eq)
qed

theorem content_width_clamped_witness:
  "m_scale example_preview \<noteq> 100
   \<and> ConvertScale example_style 120 100 \<le> ConvertScale example_style 320 100
   \<and> rect_width (m_content (updateToScale example_style 100 example_preview)) = 196
   \<and> rect_width (m_message (updateToScale example_style 100 example_preview)) = 196"
  using content_width_clamped [of example_preview 100 example_style]
  by (simp add: example_preview_fields example_style_fields example_ConvertScale_100
      example_widths_100 scaled_def updateToScale_frame(1) std_clamp_def
      kMinTextWidth_def kMaxTextWidth_def)

text \<open>
  Claim C9. Whenever \<open>updateToScale\<close> recomputes the layout, the height of the message
  rect is the wrapped height of the message at the maximal text width, capped at
  three times the height of the scaled text font; and \<open>paintMessage\<close> draws the message
  text elided with a limit of three lines.
\<close>

theorem message_at_most_three_lines:
  fixes st :: Style and scale :: int and s :: Preview and clip :: QRect
  defines "s' \<equiv> updateToScale st scale s"
  assumes recompute: "m_scale s \<noteq> scale"
  shows "rect_height (m_message s') =
           min (text_countHeight st (m_messageText s') (scaled st s' kMaxTextWidth))
             (kMaxTextLines * font_height st (ts_font (m_textStyle s')))
         \<and> rect_height (m_message s') \<le> 3 * font_height st (ts_font (m_textStyle s'))
         \<and> paintMessage s' clip =
             [SetPen HistoryTextInFg,
              DrawLeftElided (m_messageText s') 0 0 (rect_width (m_message s'))
                (rect_width (m_message s')) 3]"
proof -
  have h: "rect_height (m_message s') = layout_messageHeight st s'"
    using recompute unfolding s'_def
    by (simp add: updateToScale_rects updateToScale_layout)
  show ?thesis
    by (simp add: h layout_messageHeight_def kMaxTextWidth_def kMaxTextLines_def paintMessage_def)
qed

theorem message_at_most_three_lines_witness:
  "m_scale example_preview \<noteq> 100
   \<and> rect_height (m_message (updateToScale example_style 100 example_preview)) = 18
   \<and> rect_height (m_message (updateToScale example_style 100 example_preview))
       \<le> 3 * font_height example_style
             (ts_font (m_textStyle (updateToScale example_style 100 example_preview)))"
  using message_at_most_three_lines [of example_preview 100 example_style]
  by (simp add: example_preview_fields example_style_fields example_ConvertScale_100
      example_heights_100 scaled_def updateToScale_frame(1) kMaxTextWidth_def kMaxTextLines_def)


section \<open>Setup without a session\<close>

text \<open>
  Claim C1. When the window has no session controller the user pointer is null, and
  \<open>SetupScalePreview\<close> goes through it in \<^verbatim>\<open>user->activeUserpicView()\<close> before the
  test \<^verbatim>\<open>user ? ... : nullptr\<close> of the statement after: the setup ends in a null
  dereference and returns no popup, where the claim asks for a disabled popup and no
  crash.
\<close>

theorem SetupScalePreview_without_session:
  "SetupScalePreview st \<lparr>sessionController = None\<rparr> slider geometry hidden
     = Inl NullPointerDereference"
  by (simp add: SetupScalePreview_def)


section \<open>The position in the embedded mode\<close>

text \<open>
  Claim C2. In the embedded mode \<open>updateGlobalPosition\<close> gives the popup the position of
  the parent and the size of the outer rect: the offset that would centre it above the
  parent is computed and dropped. For the example slider, at \<open>(100, 200)\<close> and 300 wide,
  and the outer rect of 280 by 131 at scale 100, the popup is put at \<open>(100, 200)\<close>;
  centred above the parent it would be at \<open>(110, 69)\<close>.
\<close>

theorem embedded_popup_at_parent_position:
  "parent_pos (w_parent (updateToScale example_style 100 example_preview)) = QPoint 100 200
   \<and> parent_width (w_parent (updateToScale example_style 100 example_preview)) = 300
   \<and> m_outer (updateToScale example_style 100 example_preview) = QRect 0 0 280 131
   \<and> w_geometry (updateGlobalPosition 500 (updateToScale example_style 100 example_preview))
       = QRect 100 200 280 131"
  by (simp add: updateGlobalPosition_embedded updateToScale_keeps example_preview_fields
      example_outer_100 widget_setGeometry_def emit_def QRect_of_def rect_size_def
      example_slider_def image_isNull_def)


section \<open>Invalidation of the cached images\<close>

text \<open>
  Claim C3, as stated, fails: on the painted example preview a palette change leaves
  the userpic bitmap and the shadow side and corner bitmaps filled.
\<close>

theorem palette_change_keeps_shadow_and_userpic:
  "\<not> image_isNull (m_userpicImage (on_paletteChanged example_painted))
   \<and> \<not> image_isNull (at0 (m_shadowSides (on_paletteChanged example_painted)))
   \<and> \<not> image_isNull (at0 (m_shadowCorners (on_paletteChanged example_painted)))"
  by (simp add: on_paletteChanged_def update_def emit_def example_painted_fields image_isNull_def)

text \<open>
  Claim C3, amended. After a palette change the bubble corner pixmaps, the bubble tail
  and the bubble bottom-right shadow pixmap are empty, and the next
  \<open>validateBubbleCache\<close> builds them again; the shadow side and corner bitmaps and the
  userpic bitmap are what they were.
\<close>

theorem palette_change_clears_bubble_cache:
  "m_bubbleCorners (on_paletteChanged s) = no_images
   \<and> m_bubbleTail (on_paletteChanged s) = NullImage
   \<and> m_bubbleShadowBottomRight (on_paletteChanged s) = NullImage
   \<and> m_bubbleCorners (validateBubbleCache st (on_paletteChanged s))
       = Array4 (CornerPixmap (scaled st s 16) MsgInBg 0) (CornerPixmap (scaled st s 16) MsgInBg 1)
           NullImage (CornerPixmap (scaled st s 16) MsgInBg 3)
   \<and> m_bubbleTail (validateBubbleCache st (on_paletteChanged s))
       = IconInstance HistoryBubbleTailInLeft MsgInBg (m_scale s)
   \<and> m_bubbleShadowBottomRight (validateBubbleCache st (on_paletteChanged s))
       = CornerPixmap (scaled st s 16) MsgInShadow 3
   \<and> m_shadowSides (on_paletteChanged s) = m_shadowSides s
   \<and> m_shadowCorners (on_paletteChanged s) = m_shadowCorners s
   \<and> m_userpicImage (on_paletteChanged s) = m_userpicImage s"
  by (simp add: on_paletteChanged_def validateBubbleCache_def update_def emit_def Let_def
      no_images_def image_isNull_def PrepareCornerPixmaps_def scaled_icon_def scaled_def)

text \<open>
  Claim C4, as stated, fails in both directions: on the painted example preview the
  image that is already the stored source arrives again and a redraw is requested; on
  the example preview that was never painted a different image arrives and no redraw
  is requested.
\<close>

theorem userpic_redraw_not_by_difference:
  "m_userpicOriginal example_painted = UserpicSource 1
   \<and> w_trace (on_userpic (UserpicSource 1) example_painted)
       = w_trace example_painted @ [WidgetUpdate (m_outer example_painted)]
   \<and> m_userpicOriginal example_preview_userpic = UserpicSource 1
   \<and> m_userpicImage example_preview_userpic = NullImage
   \<and> w_trace (on_userpic (UserpicSource 2) example_preview_userpic)
       = w_trace example_preview_userpic"
  by (simp add: on_userpic_def update_def emit_def example_painted_fields
      example_preview_userpic_fields image_isNull_def)

text \<open>
  Claim C4, amended. When an image arrives from the producer it becomes the stored
  source and the cached userpic bitmap is empty afterwards; a redraw is requested
  exactly when the cached userpic bitmap was filled, whatever the image is.
\<close>

theorem userpic_redraw_iff_cache_filled:
  "m_userpicOriginal (on_userpic userpic s) = userpic
   \<and> m_userpicImage (on_userpic userpic s) = NullImage
   \<and> w_trace (on_userpic userpic s)
       = (if image_isNull (m_userpicImage s) then w_trace s
          else w_trace s @ [WidgetUpdate (m_outer s)])"
  by (simp add: on_userpic_def update_def emit_def image_isNull_def)


section \<open>Hiding\<close>

text \<open>
  Claim C5. A Hide request on a preview that is shown and on screen, also while its
  show animation runs, leaves one animation running from the progress the preview had
  (the value of the running animation, or 1 when none runs) to the target 0; the
  preview is marked not shown at once, and over any ticks of non-negative length the
  widget is hidden exactly when their sum reaches the slide duration, that is when
  the interpolation is complete. (A shown preview is on screen in every state that the
  constructor, \<open>toggle\<close> and the ticks lead to; a Hide on a shown preview whose widget
  something else has hidden stops the animation instead.)
\<close>

theorem hide_runs_from_current_progress:
  fixes st :: Style and s :: Preview and scale :: int and globalX :: int and dts :: "int list"
  defines "s' \<equiv> toggle st Hide scale globalX s"
  assumes shown: "m_shown s" and on_screen: "\<not> w_hidden s"
    and duration: "0 < st_slideWrapDuration st"
    and ticks: "\<forall>dt\<in>set dts. 0 \<le> dt"
  shows "m_shownAnimation s' =
           \<lparr>anim_running = True,
            anim_from = Simple_value (m_shownAnimation s) 1,
            anim_to = 0,
            anim_value = Simple_value (m_shownAnimation s) 1,
            anim_duration = st_slideWrapDuration st,
            anim_elapsed = 0\<rparr>
         \<and> \<not> m_shown s'
         \<and> \<not> w_hidden s'
         \<and> (w_hidden (fold animation_tick dts s') \<longleftrightarrow> st_slideWrapDuration st \<le> sum_list dts)"
proof -
  have a: "m_shownAnimation s' =
      \<lparr>anim_running = True, anim_from = Simple_value (m_shownAnimation s) 1, anim_to = 0,
       anim_value = Simple_value (m_shownAnimation s) 1,
       anim_duration = st_slideWrapDuration st, anim_elapsed = 0\<rparr>"
    and b: "\<not> m_shown s'" and c: "\<not> w_hidden s'"
    using shown on_screen
    by (simp_all add: s'_def toggle_def toggleShown_def toggleFilter_def animation_start_def
        emit_def Simple_start_def Simple_value_def Let_def)
  have run: "Simple_animating (m_shownAnimation s')"
    by (simp add: a Simple_animating_def)
  have "w_hidden (fold animation_tick dts s')
        \<longleftrightarrow> anim_duration (m_shownAnimation s') \<le> anim_elapsed (m_shownAnimation s') + sum_list dts"
    using run b c duration ticks by (intro ticks_hide) (simp_all add: a)
  then show ?thesis
    using a b c by simp
qed

theorem hide_runs_from_current_progress_witness:
  "m_shown example_showing
   \<and> \<not> w_hidden example_showing
   \<and> anim_to (m_shownAnimation example_showing) = 1
   \<and> anim_from (m_shownAnimation (toggle example_style Hide 0 0 example_showing)) = 1 / 4
   \<and> anim_to (m_shownAnimation (toggle example_style Hide 0 0 example_showing)) = 0
   \<and> \<not> w_hidden (fold animation_tick [40] (toggle example_style Hide 0 0 example_showing))
   \<and> w_hidden (fold animation_tick [40, 70] (toggle example_style Hide 0 0 example_showing))"
proof -
  have d: "0 < st_slideWrapDuration example_style"
    by (simp add: example_style_fields)
  have t1: "\<forall>dt\<in>set [40::int]. 0 \<le> dt" and t2: "\<forall>dt\<in>set [40, 70::int]. 0 \<le> dt"
    by simp_all
  show ?thesis
    using hide_runs_from_current_progress
            [OF example_showing_fields(1) example_showing_fields(2) d t1, of 0 0]
      hide_runs_from_current_progress
            [OF example_showing_fields(1) example_showing_fields(2) d t2, of 0 0]
    by (simp add: example_showing_fields example_style_fields Simple_value_def
        Simple_animating_def)
qed

text \<open>
  Claim C10. A toggle of kind Hide leaves the stored scale, every rect, the widget
  geometry, the text styles and every cached image as they were, and does the same
  whatever scale and position are passed; on a preview that is not shown it changes
  nothing at all, neither the animation nor the trace of calls on the widget.
\<close>

theorem toggle_Hide_keeps_layout:
  "m_scale (toggle st Hide scale globalX s) = m_scale s
   \<and> m_replyBar (toggle st Hide scale globalX s) = m_replyBar s
   \<and> m_name (toggle st Hide scale globalX s) = m_name s
   \<and> m_reply (toggle st Hide scale globalX s) = m_reply s
   \<and> m_message (toggle st Hide scale globalX s) = m_message s
   \<and> m_content (toggle st Hide scale globalX s) = m_content s
   \<and> m_bubble (toggle st Hide scale globalX s) = m_bubble s
   \<and> m_userpic (toggle st Hide scale globalX s) = m_userpic s
   \<and> m_inner (toggle st Hide scale globalX s) = m_inner s
   \<and> m_outer (toggle st Hide scale globalX s) = m_outer s
   \<and> m_minOuterSize (toggle st Hide scale globalX s) = m_minOuterSize s
   \<and> m_maxOuterSize (toggle st Hide scale globalX s) = m_maxOuterSize s
   \<and> w_geometry (toggle st Hide scale globalX s) = w_geometry s
   \<and> m_nameStyle (toggle st Hide scale globalX s) = m_nameStyle s
   \<and> m_textStyle (toggle st Hide scale globalX s) = m_textStyle s
   \<and> m_shadowSides (toggle st Hide scale globalX s) = m_shadowSides s
   \<and> m_shadowCorners (toggle st Hide scale globalX s) = m_shadowCorners s
   \<and> m_bubbleCorners (toggle st Hide scale globalX s) = m_bubbleCorners s
   \<and> m_bubbleShadowBottomRight (toggle st Hide scale globalX s) = m_bubbleShadowBottomRight s
   \<and> m_bubbleTail (toggle st Hide scale globalX s) = m_bubbleTail s
   \<and> m_layer (toggle st Hide scale globalX s) = m_layer s
   \<and> m_canvas (toggle st Hide scale globalX s) = m_canvas s
   \<and> m_canvasCornerMasks (toggle st Hide scale globalX s) = m_canvasCornerMasks s
   \<and> m_userpicOriginal (toggle st Hide scale globalX s) = m_userpicOriginal s
   \<and> m_userpicImage (toggle st Hide scale globalX s) = m_userpicImage s
   \<and> toggle st Hide scale globalX s = toggle st Hide scale' globalX' s
   \<and> (\<not> m_shown s \<longrightarrow> toggle st Hide scale globalX s = s)"
  by (simp add: toggle_def toggleShown_def toggleFilter_def animation_start_def
      animation_stop_def emit_def Let_def)

theorem toggle_Hide_keeps_layout_witness:
  "\<not> m_shown example_preview \<and> toggle example_style Hide 150 700 example_preview = example_preview"
  using toggle_Hide_keeps_layout [of example_style 150 700 example_preview]
  by (simp add: example_preview_fields)

end
